theory Spec2Isabelle
  imports Complex_Main
begin

section \<open>Values, documents, requests and responses\<close>

text \<open>
  The service is one Express application over two MongoDB collections, \<open>products\<close> and
  \<open>items\<close>. The embedding follows the handlers of the source line by line. What the
  source takes from outside (the JavaScript runtime, the body and query parsers, the MongoDB
  driver) appears as data or as a parameter:
  \<^item> a request body is the object \<open>express.json()\<close> or \<open>express.urlencoded()\<close> produced, a map
    from field names to values; a field that is not there reads as \<open>undefined\<close>, which is
    \<open>None\<close>. When no body was parsed, \<open>req.body\<close> itself is \<open>undefined\<close> (Express 5 leaves it
    so), and the body of the request is \<open>None\<close>;
  \<^item> a query parameter is a string, an array or an object, as the extended query parser
    gives them;
  \<open>Number\<close> is the runtime's coercion and is a parameter of the two handlers that call it.
  The routes that only send a fixed response (\<open>/\<close>, \<open>/version\<close>, \<open>/add-product-form\<close>), the
  unfiltered listing \<open>GET /api/items\<close> and the final 404 handler are left out.
\<close>

text \<open>A JavaScript number: not-a-number, an infinity (\<open>True\<close> for the positive one) or a
  finite value.\<close>

datatype jsnum = NaN | Infinity bool | Finite rat

text \<open>An object identifier of the store, held as its canonical hex string.\<close>

datatype ObjectId = ObjectId string

datatype val =
    JNull
  | JBool bool
  | JNum jsnum
  | JStr string
  | JArr "val list"
  | JObj "(string \<times> val) list"
  | JOid ObjectId

type_synonym document = "string \<rightharpoonup> val"

text \<open>The values of \<open>req.query\<close>.\<close>

datatype qs = QStr string | QArr "qs list" | QObj "(string \<times> qs) list"

primrec val_of :: "qs \<Rightarrow> val" where
  "val_of (QStr s) = JStr s"
| "val_of (QArr xs) = JArr (map val_of xs)"
| "val_of (QObj kvs) = JObj (map (map_prod id val_of) kvs)"

text \<open>JavaScript truthiness, as \<open>!x\<close> and \<open>if (x)\<close> test it; \<open>None\<close> is \<open>undefined\<close>.\<close>

fun truthy :: "val option \<Rightarrow> bool" where
  "truthy None = False"
| "truthy (Some JNull) = False"
| "truthy (Some (JBool b)) = b"
| "truthy (Some (JNum n)) = (n \<noteq> NaN \<and> n \<noteq> Finite 0)"
| "truthy (Some (JStr s)) = (s \<noteq> [])"
| "truthy (Some (JArr xs)) = True"
| "truthy (Some (JObj kvs)) = True"
| "truthy (Some (JOid i)) = True"

text \<open>What a handler can throw.\<close>

datatype error = TypeError | StoreError

text \<open>What a handler passes to \<open>res.json\<close> or \<open>res.send\<close>, before serialisation;
  \<open>ErrorPage\<close> is the page Express itself sends for an exception no handler caught.\<close>

datatype payload =
    Json document
  | Listing string nat "document list"
  | NoBody
  | ErrorPage error

record response =
  status :: nat
  payload :: payload

definition json_error :: "nat \<Rightarrow> string \<Rightarrow> response" where
  "json_error code msg = \<lparr>status = code, payload = Json [''error'' \<mapsto> JStr msg]\<rparr>"

definition json_message :: "nat \<Rightarrow> string \<Rightarrow> response" where
  "json_message code msg = \<lparr>status = code, payload = Json [''message'' \<mapsto> JStr msg]\<rparr>"

record request =
  x_api_key :: "string option"
  id_param :: string
  req_body :: "document option"
  req_query :: "string \<rightharpoonup> qs"

section \<open>The access gate\<close>

text \<open>
  \<open>apiKeyMiddleware\<close>: the first argument is \<open>process.env.API_KEY\<close> (\<open>None\<close> when the variable is
  unset). The result is the response the middleware sends, or \<open>None\<close> when it calls
  \<open>next()\<close>. \<open>!clientKey\<close> holds for \<open>undefined\<close> and for the empty string.
\<close>

definition apiKeyMiddleware :: "string option \<Rightarrow> request \<Rightarrow> response option" where
  "apiKeyMiddleware serverKey req =
     (let clientKey = x_api_key req in
      if clientKey = None \<or> clientKey = Some [] then
        Some (json_error 401 ''Unauthorized: API key missing'')
      else if clientKey \<noteq> serverKey then
        Some (json_error 403 ''Forbidden: Invalid API key'')
      else None)"

section \<open>Object identifiers\<close>

text \<open>
  Modelled from the spec: \<open>ObjectId.isValid\<close>, \<open>new ObjectId(id)\<close> and the serialisation of
  an identifier belong to the MongoDB driver, which is not part of the sources. The spec
  gives the format the path parameter must have: "the store's canonical 24-character hex
  object-identifier encoding; anything else is rejected as malformed". Hex digits are read
  in either case and denote the same identifier; the canonical string is the lower-case one.
\<close>

definition lower_hex_digit :: "char \<Rightarrow> bool" where
  "lower_hex_digit c = (c \<in> set ''0123456789abcdef'')"

definition hex_digit :: "char \<Rightarrow> bool" where
  "hex_digit c = (lower_hex_digit c \<or> c \<in> set ''ABCDEF'')"

definition to_lower_hex :: "char \<Rightarrow> char" where
  "to_lower_hex c =
     (if c = CHR ''A'' then CHR ''a'' else if c = CHR ''B'' then CHR ''b''
      else if c = CHR ''C'' then CHR ''c'' else if c = CHR ''D'' then CHR ''d''
      else if c = CHR ''E'' then CHR ''e'' else if c = CHR ''F'' then CHR ''f''
      else c)"

definition ObjectId_isValid :: "string \<Rightarrow> bool" where
  "ObjectId_isValid s = (length s = 24 \<and> list_all hex_digit s)"

definition new_ObjectId :: "string \<Rightarrow> ObjectId" where
  "new_ObjectId s = ObjectId (map to_lower_hex s)"

fun toHexString :: "ObjectId \<Rightarrow> string" where
  "toHexString (ObjectId s) = s"

text \<open>The identifiers the driver generates: twelve bytes, that is 24 lower-case hex
  digits.\<close>

fun canonical :: "ObjectId \<Rightarrow> bool" where
  "canonical (ObjectId s) = (length s = 24 \<and> list_all lower_hex_digit s)"

section \<open>The document store\<close>

text \<open>The filter, projection and sort that \<open>GET /api/products\<close> builds, and the cursor it
  runs on the \<open>products\<close> collection.\<close>

datatype range = Gte jsnum

record filter_obj =
  f_category :: "qs option"
  f_price :: "range option"

record cursor =
  c_collection :: string
  c_filter :: filter_obj
  c_projection :: "(string \<rightharpoonup> nat) option"
  c_sort :: "(string \<times> int) list option"

datatype store_call =
    Find cursor
  | FindOne string ObjectId
  | InsertOne string document
  | UpdateOne string ObjectId document
  | DeleteOne string ObjectId

text \<open>
  Modelled from the spec: the store is the MongoDB server behind the driver, neither of
  them part of the sources. The spec names its primitives: \<open>findOne(id) -> document | none\<close>,
  \<open>insertOne(document) -> generated id\<close>, \<open>updateOne(id, patch) -> matched-count\<close> with a
  \<open>$set\<close>-style merge of the given top-level fields, \<open>deleteOne(id) -> deleted-count\<close>; every
  stored document has a unique identifier assigned at insertion. A collection is a map
  from identifiers to documents, and a document carries its identifier in \<open>_id\<close>.

  Any call may throw (a lost connection, a write the server refuses): \<open>throws\<close> says on
  which calls it does, and the handlers cannot look at it.
\<close>

record store =
  docs :: "string \<Rightarrow> ObjectId \<rightharpoonup> document"
  throws :: "store_call \<Rightarrow> bool"

definition findOne :: "store \<Rightarrow> string \<Rightarrow> ObjectId \<Rightarrow> error + document option" where
  "findOne s c i = (if throws s (FindOne c i) then Inl StoreError else Inr (docs s c i))"

text \<open>\<open>insertOne\<close>: the driver generates the identifier \<open>fresh\<close>, writes it into the document
  as \<open>_id\<close> and sends the insert; the server refuses a duplicate key.\<close>

definition insertOne ::
  "store \<Rightarrow> ObjectId \<Rightarrow> string \<Rightarrow> document \<Rightarrow> error + (store \<times> ObjectId)" where
  "insertOne s fresh c d =
     (if throws s (InsertOne c d) \<or> docs s c fresh \<noteq> None then Inl StoreError
      else Inr (s\<lparr>docs := (docs s)(c := (docs s c)(fresh \<mapsto> d(''_id'' \<mapsto> JOid fresh)))\<rparr>,
                fresh))"

text \<open>\<open>updateOne(filter by _id, {$set: upd})\<close>: the result is the matched count.\<close>

definition updateOne ::
  "store \<Rightarrow> string \<Rightarrow> ObjectId \<Rightarrow> document \<Rightarrow> error + (store \<times> nat)" where
  "updateOne s c i upd =
     (if throws s (UpdateOne c i upd) then Inl StoreError
      else case docs s c i of
        None \<Rightarrow> Inr (s, 0)
      | Some d \<Rightarrow> Inr (s\<lparr>docs := (docs s)(c := (docs s c)(i \<mapsto> d ++ upd))\<rparr>, 1))"

text \<open>\<open>deleteOne(filter by _id)\<close>: the result is the deleted count.\<close>

definition deleteOne :: "store \<Rightarrow> string \<Rightarrow> ObjectId \<Rightarrow> error + (store \<times> nat)" where
  "deleteOne s c i =
     (if throws s (DeleteOne c i) then Inl StoreError
      else case docs s c i of
        None \<Rightarrow> Inr (s, 0)
      | Some d \<Rightarrow> Inr (s\<lparr>docs := (docs s)(c := (docs s c)(i := None))\<rparr>, 1))"

section \<open>The handlers\<close>

text \<open>
  A handler runs on the handle \<open>db\<close>, which is \<open>None\<close> until the connection is made
  (\<open>let db;\<close> and the asynchronous \<open>MongoClient.connect\<close>): \<open>db.collection\<close> then throws inside
  the handler's \<open>try\<close>. It gives the response, the handle afterwards and the store calls it
  issued, in order.
\<close>

record outcome =
  reply :: response
  db_after :: "store option"
  calls :: "store_call list"

definition server_error :: response where
  "server_error = json_error 500 ''Server error''"

text \<open>
  A handler that throws outside its \<open>try\<close>: the promise the \<open>async\<close> handler returned is
  rejected, Express passes the exception to its default error handler, and the answer is
  500 with Express's own page. Nothing was sent to the store before. The three handlers
  that do so destructure \<open>req.body\<close> ahead of their \<open>try\<close>, which throws a \<open>TypeError\<close> when
  no body was parsed.
\<close>

definition uncaught :: "error \<Rightarrow> store option \<Rightarrow> outcome" where
  "uncaught e db = \<lparr>reply = \<lparr>status = 500, payload = ErrorPage e\<rparr>, db_after = db, calls = []\<rparr>"

text \<open>\<open>GET /api/products/:id\<close>\<close>

definition get_product_by_id :: "store option \<Rightarrow> request \<Rightarrow> outcome" where
  "get_product_by_id db req =
     (let id = id_param req in
      if \<not> ObjectId_isValid id then
        \<lparr>reply = json_error 400 ''Invalid product ID'', db_after = db, calls = []\<rparr>
      else case db of
        None \<Rightarrow> \<lparr>reply = server_error, db_after = db, calls = []\<rparr>
      | Some s \<Rightarrow>
          (case findOne s ''products'' (new_ObjectId id) of
            Inl e \<Rightarrow> \<lparr>reply = server_error, db_after = db,
                       calls = [FindOne ''products'' (new_ObjectId id)]\<rparr>
          | Inr None \<Rightarrow> \<lparr>reply = json_error 404 ''Product not found'', db_after = db,
                          calls = [FindOne ''products'' (new_ObjectId id)]\<rparr>
          | Inr (Some product) \<Rightarrow> \<lparr>reply = \<lparr>status = 200, payload = Json product\<rparr>,
                          db_after = db, calls = [FindOne ''products'' (new_ObjectId id)]\<rparr>))"


text \<open>\<open>GET /api/items/:id\<close>\<close>

definition get_item_by_id :: "store option \<Rightarrow> request \<Rightarrow> outcome" where
  "get_item_by_id db req =
     (let id = id_param req in
      if \<not> ObjectId_isValid id then
        \<lparr>reply = json_error 400 ''Invalid item ID'', db_after = db, calls = []\<rparr>
      else case db of
        None \<Rightarrow> \<lparr>reply = server_error, db_after = db, calls = []\<rparr>
      | Some s \<Rightarrow>
          (case findOne s ''items'' (new_ObjectId id) of
            Inl e \<Rightarrow> \<lparr>reply = server_error, db_after = db,
                       calls = [FindOne ''items'' (new_ObjectId id)]\<rparr>
          | Inr None \<Rightarrow> \<lparr>reply = json_error 404 ''Item not found'', db_after = db,
                          calls = [FindOne ''items'' (new_ObjectId id)]\<rparr>
          | Inr (Some item) \<Rightarrow> \<lparr>reply = \<lparr>status = 200, payload = Json item\<rparr>,
                          db_after = db, calls = [FindOne ''items'' (new_ObjectId id)]\<rparr>))"

text \<open>\<open>POST /api/items\<close>, behind the gate; \<open>fresh\<close> is the identifier the driver generates.\<close>

definition post_items :: "ObjectId \<Rightarrow> store option \<Rightarrow> request \<Rightarrow> outcome" where
  "post_items fresh db req =
     (case req_body req of
        None \<Rightarrow> uncaught TypeError db
      | Some body \<Rightarrow>
     (let name = body ''name'';
          description = body ''description'' in
      if \<not> truthy name \<or> \<not> truthy description then
        \<lparr>reply = json_error 400 ''Missing required fields: name, description'',
         db_after = db, calls = []\<rparr>
      else
        let newItem = Map.empty(''name'' := name, ''description'' := description) in
        case db of
          None \<Rightarrow> \<lparr>reply = server_error, db_after = db, calls = []\<rparr>
        | Some s \<Rightarrow>
            (case insertOne s fresh ''items'' newItem of
              Inl e \<Rightarrow> \<lparr>reply = server_error, db_after = db,
                         calls = [InsertOne ''items'' newItem]\<rparr>
            | Inr (s', insertedId) \<Rightarrow>
                \<lparr>reply = \<lparr>status = 201,
                           payload = Json [''message'' \<mapsto> JStr ''Item created'',
                                           ''id'' \<mapsto> JOid insertedId]\<rparr>,
                 db_after = Some s', calls = [InsertOne ''items'' newItem]\<rparr>)))"

text \<open>\<open>PUT /api/items/:id\<close>, behind the gate. The body is destructured on the handler's
  second line, ahead of the test of the identifier.\<close>

definition put_item :: "store option \<Rightarrow> request \<Rightarrow> outcome" where
  "put_item db req =
     (let id = id_param req in
      case req_body req of
        None \<Rightarrow> uncaught TypeError db
      | Some body \<Rightarrow>
     (let name = body ''name'';
          description = body ''description'' in
      if \<not> ObjectId_isValid id then
        \<lparr>reply = json_error 400 ''Invalid item ID'', db_after = db, calls = []\<rparr>
      else if \<not> truthy name \<or> \<not> truthy description then
        \<lparr>reply = json_error 400 ''PUT requires full item data: name, description'',
         db_after = db, calls = []\<rparr>
      else
        let upd = Map.empty(''name'' := name, ''description'' := description) in
        case db of
          None \<Rightarrow> \<lparr>reply = server_error, db_after = db, calls = []\<rparr>
        | Some s \<Rightarrow>
            (case updateOne s ''items'' (new_ObjectId id) upd of
              Inl e \<Rightarrow> \<lparr>reply = server_error, db_after = db,
                         calls = [UpdateOne ''items'' (new_ObjectId id) upd]\<rparr>
            | Inr (s', matchedCount) \<Rightarrow>
                if matchedCount = 0 then
                  \<lparr>reply = json_error 404 ''Item not found'', db_after = Some s',
                   calls = [UpdateOne ''items'' (new_ObjectId id) upd]\<rparr>
                else
                  \<lparr>reply = json_message 200 ''Item fully updated'', db_after = Some s',
                   calls = [UpdateOne ''items'' (new_ObjectId id) upd]\<rparr>)))"

text \<open>\<open>PATCH /api/items/:id\<close>, behind the gate. \<open>!updates\<close> holds when no body was parsed;
  \<open>Object.keys(updates).length === 0\<close> when the body has no field.\<close>

definition patch_item :: "store option \<Rightarrow> request \<Rightarrow> outcome" where
  "patch_item db req =
     (let id = id_param req in
      if \<not> ObjectId_isValid id then
        \<lparr>reply = json_error 400 ''Invalid item ID'', db_after = db, calls = []\<rparr>
      else
        case req_body req of
          None \<Rightarrow>
            \<lparr>reply = json_error 400 ''No fields provided for update'', db_after = db,
             calls = []\<rparr>
        | Some updates \<Rightarrow>
            if dom updates = {} then
              \<lparr>reply = json_error 400 ''No fields provided for update'', db_after = db,
               calls = []\<rparr>
            else (case db of
              None \<Rightarrow> \<lparr>reply = server_error, db_after = db, calls = []\<rparr>
            | Some s \<Rightarrow>
                (case updateOne s ''items'' (new_ObjectId id) updates of
                  Inl e \<Rightarrow> \<lparr>reply = server_error, db_after = db,
                             calls = [UpdateOne ''items'' (new_ObjectId id) updates]\<rparr>
                | Inr (s', matchedCount) \<Rightarrow>
                    if matchedCount = 0 then
                      \<lparr>reply = json_error 404 ''Item not found'', db_after = Some s',
                       calls = [UpdateOne ''items'' (new_ObjectId id) updates]\<rparr>
                    else
                      \<lparr>reply = json_message 200 ''Item partially updated'',
                       db_after = Some s',
                       calls = [UpdateOne ''items'' (new_ObjectId id) updates]\<rparr>)))"

text \<open>\<open>DELETE /api/items/:id\<close>, behind the gate.\<close>

definition delete_item :: "store option \<Rightarrow> request \<Rightarrow> outcome" where
  "delete_item db req =
     (let id = id_param req in
      if \<not> ObjectId_isValid id then
        \<lparr>reply = json_error 400 ''Invalid item ID'', db_after = db, calls = []\<rparr>
      else case db of
        None \<Rightarrow> \<lparr>reply = server_error, db_after = db, calls = []\<rparr>
      | Some s \<Rightarrow>
          (case deleteOne s ''items'' (new_ObjectId id) of
            Inl e \<Rightarrow> \<lparr>reply = server_error, db_after = db,
                       calls = [DeleteOne ''items'' (new_ObjectId id)]\<rparr>
          | Inr (s', deletedCount) \<Rightarrow>
              if deletedCount = 0 then
                \<lparr>reply = json_error 404 ''Item not found'', db_after = Some s',
                 calls = [DeleteOne ''items'' (new_ObjectId id)]\<rparr>
              else
                \<lparr>reply = \<lparr>status = 204, payload = NoBody\<rparr>, db_after = Some s',
                 calls = [DeleteOne ''items'' (new_ObjectId id)]\<rparr>))"

text \<open>A route registered as \<open>app.METHOD(path, apiKeyMiddleware, handler)\<close>: the handler runs
  only when the middleware calls \<open>next()\<close>.\<close>

definition gated ::
  "string option \<Rightarrow> (store option \<Rightarrow> request \<Rightarrow> outcome) \<Rightarrow> store option \<Rightarrow> request \<Rightarrow> outcome"
where
  "gated serverKey handler db req =
     (case apiKeyMiddleware serverKey req of
        Some r \<Rightarrow> \<lparr>reply = r, db_after = db, calls = []\<rparr>
      | None \<Rightarrow> handler db req)"

definition route_post_items ::
  "string option \<Rightarrow> ObjectId \<Rightarrow> store option \<Rightarrow> request \<Rightarrow> outcome" where
  "route_post_items serverKey fresh = gated serverKey (post_items fresh)"

definition route_put_item :: "string option \<Rightarrow> store option \<Rightarrow> request \<Rightarrow> outcome" where
  "route_put_item serverKey = gated serverKey put_item"

definition route_patch_item :: "string option \<Rightarrow> store option \<Rightarrow> request \<Rightarrow> outcome" where
  "route_patch_item serverKey = gated serverKey patch_item"

definition route_delete_item :: "string option \<Rightarrow> store option \<Rightarrow> request \<Rightarrow> outcome" where
  "route_delete_item serverKey = gated serverKey delete_item"

section \<open>The product listing\<close>

text \<open>\<open>String.prototype.split(",")\<close>: the pieces between the commas; a string without a
  comma is its own single piece.\<close>

fun split_comma :: "string \<Rightarrow> string list" where
  "split_comma [] = [[]]"
| "split_comma (c # cs) =
     (if c = CHR '','' then [] # split_comma cs
      else (case split_comma cs of
              [] \<Rightarrow> [[c]]
            | w # ws \<Rightarrow> (c # w) # ws))"

text \<open>\<open>projection[field] = 1\<close> on an object made by \<open>{}\<close>: an own property, except for the
  name \<open>__proto__\<close>, where the assignment reaches the setter inherited from
  \<open>Object.prototype\<close>, which ignores a number and leaves the object as it is.\<close>

definition assign_one :: "(string \<rightharpoonup> nat) \<Rightarrow> string \<Rightarrow> (string \<rightharpoonup> nat)" where
  "assign_one projection field =
     (if field = ''__proto__'' then projection else projection(field \<mapsto> 1))"

text \<open>
  \<open>GET /api/products\<close>. \<open>toArray\<close> is the store's evaluation of the cursor, left open. The
  whole body is inside \<open>try\<close>: \<open>fields.split\<close> on a value that is not a string, and
  \<open>db.collection\<close> on a handle that is not there, throw a \<open>TypeError\<close> that ends in the 500.
\<close>

definition get_products ::
  "(val \<Rightarrow> jsnum) \<Rightarrow> (store \<Rightarrow> cursor \<Rightarrow> document list) \<Rightarrow> store option \<Rightarrow> request \<Rightarrow> outcome"
where
  "get_products Number toArray db req =
     (let category = req_query req ''category'';
          minPrice = req_query req ''minPrice'';
          sort = req_query req ''sort'';
          fields = req_query req ''fields'';
          filter0 = \<lparr>f_category = None, f_price = None\<rparr>;
          filter1 = (if truthy (map_option val_of category)
                     then filter0\<lparr>f_category := category\<rparr> else filter0);
          filter2 = (if truthy (map_option val_of minPrice)
                     then filter1\<lparr>f_price := map_option (\<lambda>m. Gte (Number (val_of m))) minPrice\<rparr>
                     else filter1)
      in
      case (if truthy (map_option val_of fields) then
              (case fields of
                 Some (QStr str) \<Rightarrow> Inr (Some (foldl assign_one Map.empty (split_comma str)))
               | _ \<Rightarrow> Inl TypeError)
            else Inr None) of
        Inl e \<Rightarrow> \<lparr>reply = server_error, db_after = db, calls = []\<rparr>
      | Inr projection \<Rightarrow>
          (case db of
            None \<Rightarrow> \<lparr>reply = server_error, db_after = db, calls = []\<rparr>
          | Some s \<Rightarrow>
              let query = \<lparr>c_collection = ''products'', c_filter = filter2,
                           c_projection = projection,
                           c_sort = (if sort = Some (QStr ''price'') then Some [(''price'', 1)]
                                     else None)\<rparr>
              in if throws s (Find query) then
                   \<lparr>reply = server_error, db_after = db, calls = [Find query]\<rparr>
                 else
                   let products = toArray s query in
                   \<lparr>reply = \<lparr>status = 200,
                              payload = Listing ''products'' (length products) products\<rparr>,
                    db_after = db, calls = [Find query]\<rparr>))"

section \<open>Sample data\<close>

text \<open>A store with one item, used where a statement is run on concrete input.\<close>

definition sample_id :: string where
  "sample_id = ''65a1b2c3d4e5f60718293a4b''"

definition pen :: document where
  "pen = [''_id'' \<mapsto> JOid (ObjectId sample_id), ''name'' \<mapsto> JStr ''Pen'',
          ''description'' \<mapsto> JStr ''blue'']"

definition empty_store :: store where
  "empty_store = \<lparr>docs = (\<lambda>c. Map.empty), throws = (\<lambda>c. False)\<rparr>"

definition sample_store :: store where
  "sample_store = \<lparr>docs = (\<lambda>c. Map.empty)(''items'' := [ObjectId sample_id \<mapsto> pen]),
                    throws = (\<lambda>c. False)\<rparr>"

section \<open>Auxiliary facts\<close>

lemma gated_cases:
  "gated key h db req =
     (if x_api_key req = None \<or> x_api_key req = Some [] then
        \<lparr>reply = json_error 401 ''Unauthorized: API key missing'', db_after = db, calls = []\<rparr>
      else if x_api_key req \<noteq> key then
        \<lparr>reply = json_error 403 ''Forbidden: Invalid API key'', db_after = db, calls = []\<rparr>
      else h db req)"
  by (simp add: gated_def apiKeyMiddleware_def Let_def)

lemmas route_defs =
  route_post_items_def route_put_item_def route_patch_item_def route_delete_item_def

lemma hex_digit_iff: "hex_digit c \<longleftrightarrow> c \<in> set ''0123456789abcdefABCDEF''"
proof -
  have "''0123456789abcdef'' @ ''ABCDEF'' = ''0123456789abcdefABCDEF''" by simp
  then show ?thesis
    unfolding hex_digit_def lower_hex_digit_def by (metis Un_iff set_append)
qed

lemma isValid_iff:
  "ObjectId_isValid s \<longleftrightarrow> length s = 24 \<and> set s \<subseteq> set ''0123456789abcdefABCDEF''"
  by (simp only: ObjectId_isValid_def list_all_iff subset_iff hex_digit_iff Ball_def)



lemma name_description_restrict:
  "Map.empty(''name'' := b ''name'', ''description'' := b ''description'') =
   b |` {''name'', ''description''}"
  by (rule ext) (simp add: restrict_map_def)

lemma map_add_twice: "(m ++ n) ++ n = m ++ n"
  by (rule ext) (simp add: map_add_def split: option.splits)

lemma updateOne_hit:
  assumes "\<not> throws s (UpdateOne c i upd)" and "docs s c i = Some d"
  shows "updateOne s c i upd =
           Inr (s\<lparr>docs := (docs s)(c := (docs s c)(i \<mapsto> d ++ upd))\<rparr>, 1)"
  using assms by (simp add: updateOne_def)

lemma put_item_hit:
  assumes "req_body req = Some body"
    and "ObjectId_isValid (id_param req)"
    and "truthy (body ''name'')" and "truthy (body ''description'')"
    and "\<not> throws s (UpdateOne ''items'' (new_ObjectId (id_param req))
                        (body |` {''name'', ''description''}))"
    and "docs s ''items'' (new_ObjectId (id_param req)) = Some d"
  shows "put_item (Some s) req =
    \<lparr>reply = json_message 200 ''Item fully updated'',
     db_after = Some (s\<lparr>docs := (docs s)(''items'' := (docs s ''items'')
        (new_ObjectId (id_param req) \<mapsto> d ++ (body |` {''name'', ''description''})))\<rparr>),
     calls = [UpdateOne ''items'' (new_ObjectId (id_param req))
                (body |` {''name'', ''description''})]\<rparr>"
  using assms(1-4) updateOne_hit [OF assms(5,6)]
  by (simp add: put_item_def name_description_restrict Let_def)

lemma patch_item_hit:
  assumes "ObjectId_isValid (id_param req)"
    and "req_body req = Some body" and "dom body \<noteq> {}"
    and "\<not> throws s (UpdateOne ''items'' (new_ObjectId (id_param req)) body)"
    and "docs s ''items'' (new_ObjectId (id_param req)) = Some d"
  shows "patch_item (Some s) req =
    \<lparr>reply = json_message 200 ''Item partially updated'',
     db_after = Some (s\<lparr>docs := (docs s)(''items'' := (docs s ''items'')
        (new_ObjectId (id_param req) \<mapsto> d ++ body))\<rparr>),
     calls = [UpdateOne ''items'' (new_ObjectId (id_param req)) body]\<rparr>"
  using assms(1-3) updateOne_hit [OF assms(4,5)]
  by (simp add: patch_item_def Let_def)

lemma get_item_by_id_result:
  assumes "ObjectId_isValid (id_param req)"
    and "\<not> throws s (FindOne ''items'' (new_ObjectId (id_param req)))"
  shows "get_item_by_id (Some s) req =
    \<lparr>reply = (case docs s ''items'' (new_ObjectId (id_param req)) of
                None \<Rightarrow> json_error 404 ''Item not found''
              | Some item \<Rightarrow> \<lparr>status = 200, payload = Json item\<rparr>),
     db_after = Some s,
     calls = [FindOne ''items'' (new_ObjectId (id_param req))]\<rparr>"
  using assms by (simp add: get_item_by_id_def findOne_def split: option.splits)


lemma sample_id_valid:
  "ObjectId_isValid sample_id \<and> new_ObjectId sample_id = ObjectId sample_id \<and>
   canonical (ObjectId sample_id) \<and> toHexString (ObjectId sample_id) = sample_id"
  by (simp add: sample_id_def ObjectId_isValid_def new_ObjectId_def hex_digit_def
      lower_hex_digit_def to_lower_hex_def)

lemma post_items_created:
  assumes "req_body req = Some body"
    and "truthy (body ''name'')" and "truthy (body ''description'')"
    and "docs s ''items'' fresh = None"
    and "\<not> throws s (InsertOne ''items'' (body |` {''name'', ''description''}))"
  shows "post_items fresh (Some s) req =
    \<lparr>reply = \<lparr>status = 201,
               payload = Json [''message'' \<mapsto> JStr ''Item created'', ''id'' \<mapsto> JOid fresh]\<rparr>,
     db_after = Some (s\<lparr>docs := (docs s)(''items'' := (docs s ''items'')
        (fresh \<mapsto> (body |` {''name'', ''description''})(''_id'' \<mapsto> JOid fresh)))\<rparr>),
     calls = [InsertOne ''items'' (body |` {''name'', ''description''})]\<rparr>"
  using assms by (simp add: post_items_def insertOne_def name_description_restrict Let_def)



lemma truthy_qs: "truthy (map_option val_of x) \<longleftrightarrow> (\<exists>v. x = Some v \<and> v \<noteq> QStr [])"
proof (cases x)
  case None
  then show ?thesis by simp
next
  case (Some v)
  then show ?thesis by (cases v) simp_all
qed

lemma truthy_val_of: "truthy (Some (val_of m)) \<longleftrightarrow> m \<noteq> QStr []"
  by (cases m) simp_all

lemma foldl_assign_one:
  "foldl assign_one m xs f =
     (if f \<in> set xs \<and> f \<noteq> ''__proto__'' then Some 1 else m f)"
  by (induction xs arbitrary: m) (simp_all add: assign_one_def)

lemma dom_foldl_assign_one:
  "dom (foldl assign_one Map.empty xs) = set xs - {''__proto__''}"
  by (auto simp only: dom_def foldl_assign_one split: if_splits)

lemma get_products_run:
  assumes "(if truthy (map_option val_of (req_query req ''fields'')) then
              (case req_query req ''fields'' of
                 Some (QStr str) \<Rightarrow> Inr (Some (foldl assign_one Map.empty (split_comma str)))
               | _ \<Rightarrow> Inl TypeError)
            else Inr None) = Inr projection"
  shows "calls (get_products Number toArray (Some s) req) =
     [Find \<lparr>c_collection = ''products'',
            c_filter =
              \<lparr>f_category = (if truthy (map_option val_of (req_query req ''category''))
                             then req_query req ''category'' else None),
               f_price = (if truthy (map_option val_of (req_query req ''minPrice''))
                          then map_option (\<lambda>m. Gte (Number (val_of m)))
                                 (req_query req ''minPrice'')
                          else None)\<rparr>,
            c_projection = projection,
            c_sort = (if req_query req ''sort'' = Some (QStr ''price'')
                      then Some [(''price'', 1)] else None)\<rparr>]"
proof -
  have "calls (get_products Number toArray (Some s) req) =
     [Find \<lparr>c_collection = ''products'',
            c_filter =
              (if truthy (map_option val_of (req_query req ''minPrice''))
               then (if truthy (map_option val_of (req_query req ''category''))
                     then \<lparr>f_category = None, f_price = None\<rparr>
                            \<lparr>f_category := req_query req ''category''\<rparr>
                     else \<lparr>f_category = None, f_price = None\<rparr>)
                    \<lparr>f_price := map_option (\<lambda>m. Gte (Number (val_of m)))
                                 (req_query req ''minPrice'')\<rparr>
               else (if truthy (map_option val_of (req_query req ''category''))
                     then \<lparr>f_category = None, f_price = None\<rparr>
                            \<lparr>f_category := req_query req ''category''\<rparr>
                     else \<lparr>f_category = None, f_price = None\<rparr>)),
            c_projection = projection,
            c_sort = (if req_query req ''sort'' = Some (QStr ''price'')
                      then Some [(''price'', 1)] else None)\<rparr>]"
    unfolding get_products_def Let_def assms
    by (simp only: sum.case option.case outcome.simps if_distrib [of calls] if_cancel)
  then show ?thesis
    by (cases "truthy (map_option val_of (req_query req ''minPrice''))";
        cases "truthy (map_option val_of (req_query req ''category''))")
       (simp_all only: if_True if_False filter_obj.simps)
qed

lemma sample_put_run:
  "put_item (Some sample_store)
     \<lparr>x_api_key = Some ''s3cret'', id_param = sample_id,
      req_body = Some [''name'' \<mapsto> JStr ''Pencil'', ''description'' \<mapsto> JStr ''grey'',
                  ''color'' \<mapsto> JStr ''red''],
      req_query = Map.empty\<rparr> =
   \<lparr>reply = json_message 200 ''Item fully updated'',
    db_after = Some (sample_store\<lparr>docs := (docs sample_store)(''items'' :=
       [ObjectId sample_id \<mapsto> [''_id'' \<mapsto> JOid (ObjectId sample_id),
          ''name'' \<mapsto> JStr ''Pencil'', ''description'' \<mapsto> JStr ''grey'']])\<rparr>),
    calls = [UpdateOne ''items'' (ObjectId sample_id)
       [''name'' \<mapsto> JStr ''Pencil'', ''description'' \<mapsto> JStr ''grey'']]\<rparr>"
proof -
  let ?b = "[''name'' \<mapsto> JStr ''Pencil'', ''description'' \<mapsto> JStr ''grey'',
             ''color'' \<mapsto> JStr ''red'']"
  let ?r = "\<lparr>x_api_key = Some ''s3cret'', id_param = sample_id, req_body = Some ?b,
             req_query = Map.empty\<rparr>"
  have upd: "?b |` {''name'', ''description''} =
      [''name'' \<mapsto> JStr ''Pencil'', ''description'' \<mapsto> JStr ''grey'']"
    by (rule ext) (simp add: restrict_map_def)
  have doc: "pen ++ [''name'' \<mapsto> JStr ''Pencil'', ''description'' \<mapsto> JStr ''grey''] =
      [''_id'' \<mapsto> JOid (ObjectId sample_id), ''name'' \<mapsto> JStr ''Pencil'',
       ''description'' \<mapsto> JStr ''grey'']"
    by (rule ext) (simp add: pen_def map_add_def)
  have v: "ObjectId_isValid (id_param ?r)"
    using sample_id_valid by simp
  have i: "new_ObjectId (id_param ?r) = ObjectId sample_id"
    using sample_id_valid by simp
  have b: "req_body ?r = Some ?b"
    by simp
  have n: "truthy (?b ''name'')" and d: "truthy (?b ''description'')"
    by simp_all
  have t: "\<not> throws sample_store (UpdateOne ''items'' (new_ObjectId (id_param ?r))
                        (?b |` {''name'', ''description''}))"
    by (simp add: sample_store_def)
  have e: "docs sample_store ''items'' (new_ObjectId (id_param ?r)) = Some pen"
    unfolding i by (simp add: sample_store_def)
  have m: "(docs sample_store ''items'')(ObjectId sample_id \<mapsto> x) = [ObjectId sample_id \<mapsto> x]"
    for x
    by (rule ext) (simp add: sample_store_def)
  show ?thesis
    unfolding put_item_hit [OF b v n d t e] unfolding i upd doc m ..
qed

lemma sample_post_run:
  "post_items (ObjectId sample_id) (Some empty_store)
     \<lparr>x_api_key = Some ''s3cret'', id_param = [],
      req_body = Some [''name'' \<mapsto> JStr ''Pen'', ''description'' \<mapsto> JStr ''blue'',
                  ''color'' \<mapsto> JStr ''red''],
      req_query = Map.empty\<rparr> =
   \<lparr>reply = \<lparr>status = 201,
              payload = Json [''message'' \<mapsto> JStr ''Item created'',
                              ''id'' \<mapsto> JOid (ObjectId sample_id)]\<rparr>,
    db_after = Some sample_store,
    calls = [InsertOne ''items'' [''name'' \<mapsto> JStr ''Pen'', ''description'' \<mapsto> JStr ''blue'']]\<rparr>"
proof -
  let ?b = "[''name'' \<mapsto> JStr ''Pen'', ''description'' \<mapsto> JStr ''blue'',
             ''color'' \<mapsto> JStr ''red'']"
  let ?r = "\<lparr>x_api_key = Some ''s3cret'', id_param = [], req_body = Some ?b,
             req_query = Map.empty\<rparr>"
  have new: "?b |` {''name'', ''description''} =
      [''name'' \<mapsto> JStr ''Pen'', ''description'' \<mapsto> JStr ''blue'']"
    by (rule ext) (simp add: restrict_map_def)
  have doc: "[''name'' \<mapsto> JStr ''Pen'', ''description'' \<mapsto> JStr ''blue'']
               (''_id'' \<mapsto> JOid (ObjectId sample_id)) = pen"
    by (rule ext) (simp add: pen_def)
  have b: "req_body ?r = Some ?b"
    by simp
  have n: "truthy (?b ''name'')" and d: "truthy (?b ''description'')"
    by simp_all
  have f: "docs empty_store ''items'' (ObjectId sample_id) = None"
    by (simp add: empty_store_def)
  have t: "\<not> throws empty_store (InsertOne ''items'' (?b |` {''name'', ''description''}))"
    by (simp add: empty_store_def)
  have s: "empty_store\<lparr>docs := (docs empty_store)(''items'' := (docs empty_store ''items'')
             (ObjectId sample_id \<mapsto> pen))\<rparr> = sample_store"
    by (simp add: empty_store_def sample_store_def)
  show ?thesis
    unfolding post_items_created [OF b n d f t] unfolding new doc s ..
qed

section \<open>Malformed identifiers\<close>

text \<open>
  Where a malformed identifier is rejected. On a path identifier that is not a string of
  24 hex digits, the two \<open>GET\<close> handlers, the \<open>PATCH\<close> handler and the \<open>DELETE\<close> handler
  answer 400, with no store call and the store handle as it was; so does the \<open>PUT\<close>
  handler when a body was parsed. The three mutating routes stand behind the gate:
  whatever the gate decides, no store call is issued.
\<close>

lemma malformed_id_rejected:
  assumes "\<not> (length (id_param req) = 24 \<and>
              set (id_param req) \<subseteq> set ''0123456789abcdefABCDEF'')"
  shows "get_product_by_id db req =
           \<lparr>reply = json_error 400 ''Invalid product ID'', db_after = db, calls = []\<rparr> \<and>
         get_item_by_id db req =
           \<lparr>reply = json_error 400 ''Invalid item ID'', db_after = db, calls = []\<rparr> \<and>
         (req_body req \<noteq> None \<longrightarrow> put_item db req =
           \<lparr>reply = json_error 400 ''Invalid item ID'', db_after = db, calls = []\<rparr>) \<and>
         patch_item db req =
           \<lparr>reply = json_error 400 ''Invalid item ID'', db_after = db, calls = []\<rparr> \<and>
         delete_item db req =
           \<lparr>reply = json_error 400 ''Invalid item ID'', db_after = db, calls = []\<rparr> \<and>
         (\<forall>out \<in> {route_put_item key db req, route_patch_item key db req,
                    route_delete_item key db req}.
            calls out = [] \<and> db_after out = db) \<and>
         (\<forall>out \<in> {route_patch_item key db req, route_delete_item key db req}.
            apiKeyMiddleware key req = None \<longrightarrow> status (reply out) = 400) \<and>
         (apiKeyMiddleware key req = None \<and> req_body req \<noteq> None \<longrightarrow>
            status (reply (route_put_item key db req)) = 400)"
proof -
  have inv: "\<not> ObjectId_isValid (id_param req)"
    using assms by (simp only: isValid_iff not_False_eq_True)
  have h1: "get_product_by_id db req =
           \<lparr>reply = json_error 400 ''Invalid product ID'', db_after = db, calls = []\<rparr>"
    using inv by (simp add: get_product_by_id_def)
  have h2: "get_item_by_id db req =
           \<lparr>reply = json_error 400 ''Invalid item ID'', db_after = db, calls = []\<rparr>"
    using inv by (simp add: get_item_by_id_def)
  have h3: "put_item db req =
           \<lparr>reply = json_error 400 ''Invalid item ID'', db_after = db, calls = []\<rparr>"
    if "req_body req \<noteq> None"
    using inv that by (cases "req_body req") (simp_all add: put_item_def)
  have h3': "calls (put_item db req) = [] \<and> db_after (put_item db req) = db"
    using inv by (cases "req_body req") (simp_all add: put_item_def uncaught_def)
  have h4: "patch_item db req =
           \<lparr>reply = json_error 400 ''Invalid item ID'', db_after = db, calls = []\<rparr>"
    using inv by (simp add: patch_item_def)
  have h5: "delete_item db req =
           \<lparr>reply = json_error 400 ''Invalid item ID'', db_after = db, calls = []\<rparr>"
    using inv by (simp add: delete_item_def)
  have q: "calls (gated key h db req) = [] \<and> db_after (gated key h db req) = db"
    if "calls (h db req) = [] \<and> db_after (h db req) = db" for h
    using that by (cases "apiKeyMiddleware key req") (simp_all add: gated_def)
  have r: "apiKeyMiddleware key req = None \<longrightarrow> status (reply (gated key h db req)) = 400"
    if "h db req = \<lparr>reply = json_error 400 ''Invalid item ID'', db_after = db, calls = []\<rparr>"
    for h
    using that by (simp add: gated_def json_error_def)
  have q4: "calls (patch_item db req) = [] \<and> db_after (patch_item db req) = db"
    and q5: "calls (delete_item db req) = [] \<and> db_after (delete_item db req) = db"
    unfolding h4 h5 by simp_all
  have p: "apiKeyMiddleware key req = None \<and> req_body req \<noteq> None \<longrightarrow>
      status (reply (route_put_item key db req)) = 400"
    using h3 by (simp add: route_put_item_def gated_def json_error_def)
  show ?thesis
    unfolding route_defs
    using h1 h2 h3 h4 h5 q [of put_item, OF h3'] q [of patch_item, OF q4]
      q [of delete_item, OF q5] r [of patch_item, OF h4] r [of delete_item, OF h5]
      p [unfolded route_put_item_def]
    by simp
qed

text \<open>
  Claim C1 asks the 400 of every identifier-keyed handler on every identifier that is not
  a string of 24 hex digits. The \<open>PUT\<close> handler does not give it on a request with no
  parsed body: \<open>const { name, description } = req.body\<close> stands ahead of the test of the
  identifier and outside the \<open>try\<close>, so the handler throws and the answer is 500, whatever
  the identifier is. No store call is issued. The \<open>PATCH\<close> handler tests the identifier
  first and guards the missing body with \<open>!updates\<close>.
\<close>

theorem put_without_body_throws:
  assumes "req_body req = None"
  shows "put_item db req = uncaught TypeError db \<and>
         status (reply (put_item db req)) = 500 \<and>
         calls (put_item db req) = [] \<and>
         db_after (put_item db req) = db \<and>
         (apiKeyMiddleware key req = None \<longrightarrow>
            route_put_item key db req = uncaught TypeError db)"
  using assms by (simp add: put_item_def uncaught_def route_put_item_def gated_def)

theorem put_without_body_throws_witness:
  "\<not> (length ''not-an-id'' = 24 \<and> set ''not-an-id'' \<subseteq> set ''0123456789abcdefABCDEF'') \<and>
   route_put_item (Some ''s3cret'') (Some sample_store)
     \<lparr>x_api_key = Some ''s3cret'', id_param = ''not-an-id'', req_body = None,
      req_query = Map.empty\<rparr> =
     \<lparr>reply = \<lparr>status = 500, payload = ErrorPage TypeError\<rparr>,
      db_after = Some sample_store, calls = []\<rparr> \<and>
   patch_item (Some sample_store)
     \<lparr>x_api_key = Some ''s3cret'', id_param = ''not-an-id'', req_body = None,
      req_query = Map.empty\<rparr> =
     \<lparr>reply = json_error 400 ''Invalid item ID'', db_after = Some sample_store, calls = []\<rparr>"
proof -
  let ?r = "\<lparr>x_api_key = Some ''s3cret'', id_param = ''not-an-id'', req_body = None,
      req_query = Map.empty\<rparr>"
  have i: "\<not> (length ''not-an-id'' = 24 \<and>
      set ''not-an-id'' \<subseteq> set ''0123456789abcdefABCDEF'')"
    by simp
  have b: "req_body ?r = None"
    by simp
  have g: "apiKeyMiddleware (Some ''s3cret'') ?r = None"
    by (simp add: apiKeyMiddleware_def)
  have "route_put_item (Some ''s3cret'') (Some sample_store) ?r =
      uncaught TypeError (Some sample_store)"
    using put_without_body_throws [OF b, where key = "Some ''s3cret''"
        and db = "Some sample_store"] g
    by blast
  then have 1: "route_put_item (Some ''s3cret'') (Some sample_store) ?r =
     \<lparr>reply = \<lparr>status = 500, payload = ErrorPage TypeError\<rparr>,
      db_after = Some sample_store, calls = []\<rparr>"
    by (simp only: uncaught_def)
  have v: "\<not> ObjectId_isValid (id_param ?r)"
    using i by (simp only: isValid_iff request.simps not_False_eq_True)
  have 2: "patch_item (Some sample_store) ?r =
     \<lparr>reply = json_error 400 ''Invalid item ID'', db_after = Some sample_store, calls = []\<rparr>"
    using v by (simp add: patch_item_def)
  from i 1 2 show ?thesis
    by (intro conjI)
qed

section \<open>The gate decides first\<close>

text \<open>
  Claim C2, as the code has it. On the four mutating item routes: a request whose
  \<open>x-api-key\<close> header is absent or empty is answered 401; one whose header is not empty
  and differs from the configured secret is answered 403; in both cases the answer is the
  gate's own, whatever the identifier and the body are, and no store call is issued. Only
  a header that is not empty and equals the secret reaches the handler, and the route then
  does what the handler does.
\<close>

theorem access_gate:
  "(x_api_key req = None \<or> x_api_key req = Some [] \<longrightarrow>
      apiKeyMiddleware key req = Some (json_error 401 ''Unauthorized: API key missing'') \<and>
      (\<forall>out \<in> {route_post_items key fresh db req, route_put_item key db req,
                 route_patch_item key db req, route_delete_item key db req}.
         out = \<lparr>reply = json_error 401 ''Unauthorized: API key missing'',
                 db_after = db, calls = []\<rparr>)) \<and>
   (\<forall>k. x_api_key req = Some k \<and> k \<noteq> [] \<and> key \<noteq> Some k \<longrightarrow>
      apiKeyMiddleware key req = Some (json_error 403 ''Forbidden: Invalid API key'') \<and>
      (\<forall>out \<in> {route_post_items key fresh db req, route_put_item key db req,
                 route_patch_item key db req, route_delete_item key db req}.
         out = \<lparr>reply = json_error 403 ''Forbidden: Invalid API key'',
                 db_after = db, calls = []\<rparr>)) \<and>
   (\<forall>k. x_api_key req = Some k \<and> k \<noteq> [] \<and> key = Some k \<longrightarrow>
      apiKeyMiddleware key req = None \<and>
      route_post_items key fresh db req = post_items fresh db req \<and>
      route_put_item key db req = put_item db req \<and>
      route_patch_item key db req = patch_item db req \<and>
      route_delete_item key db req = delete_item db req) \<and>
   (apiKeyMiddleware key req = None \<longrightarrow> key \<noteq> None \<and> x_api_key req = key)"
  by (auto simp add: route_defs gated_cases apiKeyMiddleware_def Let_def)

theorem access_gate_witness:
  "route_put_item (Some ''s3cret'') None
     \<lparr>x_api_key = None, id_param = ''not-an-id'', req_body = None,
      req_query = Map.empty\<rparr> =
     \<lparr>reply = json_error 401 ''Unauthorized: API key missing'', db_after = None, calls = []\<rparr> \<and>
   route_put_item (Some ''s3cret'') None
     \<lparr>x_api_key = Some ''guess'', id_param = ''not-an-id'', req_body = None,
      req_query = Map.empty\<rparr> =
     \<lparr>reply = json_error 403 ''Forbidden: Invalid API key'', db_after = None, calls = []\<rparr> \<and>
   route_put_item (Some ''s3cret'') None
     \<lparr>x_api_key = Some ''s3cret'', id_param = ''not-an-id'', req_body = None,
      req_query = Map.empty\<rparr> =
   put_item None
     \<lparr>x_api_key = Some ''s3cret'', id_param = ''not-an-id'', req_body = None,
      req_query = Map.empty\<rparr>"
proof -
  let ?r1 = "\<lparr>x_api_key = None, id_param = ''not-an-id'', req_body = None,
      req_query = Map.empty\<rparr>"
  let ?r2 = "\<lparr>x_api_key = Some ''guess'', id_param = ''not-an-id'', req_body = None,
      req_query = Map.empty\<rparr>"
  let ?r3 = "\<lparr>x_api_key = Some ''s3cret'', id_param = ''not-an-id'', req_body = None,
      req_query = Map.empty\<rparr>"
  have a: "x_api_key ?r1 = None"
    by simp
  have b: "x_api_key ?r2 = Some ''guess'' \<and> ''guess'' \<noteq> [] \<and> Some ''s3cret'' \<noteq> Some ''guess''"
    by simp
  have c: "x_api_key ?r3 = Some ''s3cret'' \<and> ''s3cret'' \<noteq> [] \<and> Some ''s3cret'' = Some ''s3cret''"
    by simp
  have 1: "route_put_item (Some ''s3cret'') None ?r1 =
     \<lparr>reply = json_error 401 ''Unauthorized: API key missing'', db_after = None, calls = []\<rparr>"
    using a access_gate [where req = ?r1 and key = "Some ''s3cret''" and db = None]
    by blast
  have 2: "route_put_item (Some ''s3cret'') None ?r2 =
     \<lparr>reply = json_error 403 ''Forbidden: Invalid API key'', db_after = None, calls = []\<rparr>"
    using b access_gate [where req = ?r2 and key = "Some ''s3cret''" and db = None]
    by blast
  have 3: "route_put_item (Some ''s3cret'') None ?r3 = put_item None ?r3"
    using c access_gate [where req = ?r3 and key = "Some ''s3cret''" and db = None]
    by blast
  from 1 2 3 show ?thesis by (intro conjI)
qed

text \<open>The claim as the spec words it fails on a header that is present and empty: it
  differs from the secret, and the answer is 401, not 403.\<close>

theorem access_gate_empty_header_counterexample:
  "x_api_key \<lparr>x_api_key = Some [], id_param = ''65a1b2c3d4e5f60718293a4b'',
       req_body = None, req_query = Map.empty\<rparr> = Some [] \<and>
   Some [] \<noteq> Some ''s3cret'' \<and>
   route_delete_item (Some ''s3cret'') None
     \<lparr>x_api_key = Some [], id_param = ''65a1b2c3d4e5f60718293a4b'',
      req_body = None, req_query = Map.empty\<rparr> =
     \<lparr>reply = json_error 401 ''Unauthorized: API key missing'', db_after = None, calls = []\<rparr> \<and>
   status (json_error 401 ''Unauthorized: API key missing'') \<noteq> 403"
  by (simp add: route_defs gated_cases json_error_def)

section \<open>No secret configured\<close>

text \<open>
  Claim C9, as the code has it. When \<open>API_KEY\<close> is unset, the gate answers every request to
  the four mutating item routes itself: 401 when the \<open>x-api-key\<close> header is absent or
  empty, 403 when it carries any value that is not empty. No handler runs, so no store
  call is issued and the store handle stays as it was.
\<close>

theorem unset_key_rejects_all:
  "apiKeyMiddleware None req =
     Some (if x_api_key req = None \<or> x_api_key req = Some []
           then json_error 401 ''Unauthorized: API key missing''
           else json_error 403 ''Forbidden: Invalid API key'') \<and>
   (\<forall>out \<in> {route_post_items None fresh db req, route_put_item None db req,
              route_patch_item None db req, route_delete_item None db req}.
      calls out = [] \<and> db_after out = db \<and>
      status (reply out) =
        (if x_api_key req = None \<or> x_api_key req = Some [] then 401 else 403))"
  by (auto simp add: route_defs gated_def apiKeyMiddleware_def json_error_def)

theorem unset_key_rejects_all_witness:
  "status (reply (route_post_items None (ObjectId ''65a1b2c3d4e5f60718293a4b'') None
     \<lparr>x_api_key = Some ''anything'', id_param = [],
      req_body = Some [''name'' \<mapsto> JStr ''Pen'', ''description'' \<mapsto> JStr ''blue''],
      req_query = Map.empty\<rparr>)) = 403 \<and>
   status (reply (route_post_items None (ObjectId ''65a1b2c3d4e5f60718293a4b'') None
     \<lparr>x_api_key = None, id_param = [],
      req_body = Some [''name'' \<mapsto> JStr ''Pen'', ''description'' \<mapsto> JStr ''blue''],
      req_query = Map.empty\<rparr>)) = 401"
proof -
  let ?b = "[''name'' \<mapsto> JStr ''Pen'', ''description'' \<mapsto> JStr ''blue'']"
  let ?r1 = "\<lparr>x_api_key = Some ''anything'', id_param = [], req_body = Some ?b,
      req_query = Map.empty\<rparr>"
  let ?r2 = "\<lparr>x_api_key = None, id_param = [], req_body = Some ?b, req_query = Map.empty\<rparr>"
  have a: "\<not> (x_api_key ?r1 = None \<or> x_api_key ?r1 = Some [])"
    by simp
  have b: "x_api_key ?r2 = None"
    by simp
  have c: "status (reply (route_post_items None (ObjectId ''65a1b2c3d4e5f60718293a4b'') None ?r1))
      = (if x_api_key ?r1 = None \<or> x_api_key ?r1 = Some [] then 401 else 403)"
    using unset_key_rejects_all
      [where req = ?r1 and db = None and fresh = "ObjectId ''65a1b2c3d4e5f60718293a4b''"]
    by blast
  have d: "status (reply (route_post_items None (ObjectId ''65a1b2c3d4e5f60718293a4b'') None ?r2))
      = (if x_api_key ?r2 = None \<or> x_api_key ?r2 = Some [] then 401 else 403)"
    using unset_key_rejects_all
      [where req = ?r2 and db = None and fresh = "ObjectId ''65a1b2c3d4e5f60718293a4b''"]
    by blast
  from c a have "status (reply (route_post_items None (ObjectId ''65a1b2c3d4e5f60718293a4b'')
      None ?r1)) = 403"
    by (simp only: if_False)
  moreover from d b have "status (reply (route_post_items None
      (ObjectId ''65a1b2c3d4e5f60718293a4b'') None ?r2)) = 401"
    by (simp only: simp_thms if_True)
  ultimately show ?thesis by blast
qed

text \<open>The claim as the spec words it fails on a header that is present and empty: the
  answer is 401, not 403.\<close>

theorem unset_key_empty_header_counterexample:
  "x_api_key \<lparr>x_api_key = Some [], id_param = ''65a1b2c3d4e5f60718293a4b'',
       req_body = None, req_query = Map.empty\<rparr> = Some [] \<and>
   route_patch_item None None
     \<lparr>x_api_key = Some [], id_param = ''65a1b2c3d4e5f60718293a4b'',
      req_body = None, req_query = Map.empty\<rparr> =
     \<lparr>reply = json_error 401 ''Unauthorized: API key missing'', db_after = None, calls = []\<rparr> \<and>
   status (json_error 401 ''Unauthorized: API key missing'') \<noteq> 403"
  by (simp add: route_defs gated_cases json_error_def)

section \<open>Partial update\<close>

text \<open>
  Claim C6. \<open>PATCH /api/items/:id\<close> with a well-formed identifier: on a body with no fields,
  or with no body at all, the answer is 400, no store call is issued and the store is as
  it was. On a body with at
  least one field, an existing document and a store that accepts the update, the answer is
  200 and the document becomes the old one overridden by every field of the body, known
  field name or not; every other document is as it was.
\<close>

theorem patch_empty_or_merged:
  assumes "ObjectId_isValid (id_param req)"
  shows "(req_body req = None \<or> (\<exists>body. req_body req = Some body \<and> dom body = {}) \<longrightarrow>
            patch_item db req =
              \<lparr>reply = json_error 400 ''No fields provided for update'',
               db_after = db, calls = []\<rparr>) \<and>
         (\<forall>body s d. req_body req = Some body \<and> dom body \<noteq> {} \<and> db = Some s \<and>
                docs s ''items'' (new_ObjectId (id_param req)) = Some d \<and>
                \<not> throws s (UpdateOne ''items'' (new_ObjectId (id_param req)) body) \<longrightarrow>
            reply (patch_item db req) = json_message 200 ''Item partially updated'' \<and>
            (\<exists>s'. db_after (patch_item db req) = Some s' \<and>
                  docs s' ''items'' (new_ObjectId (id_param req)) = Some (d ++ body) \<and>
                  (\<forall>f v. body f = Some v \<longrightarrow> (d ++ body) f = Some v) \<and>
                  (\<forall>f. body f = None \<longrightarrow> (d ++ body) f = d f) \<and>
                  (\<forall>c i. (c, i) \<noteq> (''items'', new_ObjectId (id_param req)) \<longrightarrow>
                         docs s' c i = docs s c i)))"
proof (intro conjI impI allI)
  assume "req_body req = None \<or> (\<exists>body. req_body req = Some body \<and> dom body = {})"
  then show "patch_item db req =
      \<lparr>reply = json_error 400 ''No fields provided for update'', db_after = db, calls = []\<rparr>"
  proof
    assume "req_body req = None"
    with assms show ?thesis
      by (simp add: patch_item_def Let_def)
  next
    assume "\<exists>body. req_body req = Some body \<and> dom body = {}"
    then obtain body where "req_body req = Some body" and "dom body = {}"
      by blast
    with assms show ?thesis
      by (simp add: patch_item_def Let_def)
  qed
next
  fix body s d
  assume a: "req_body req = Some body \<and> dom body \<noteq> {} \<and> db = Some s \<and>
      docs s ''items'' (new_ObjectId (id_param req)) = Some d \<and>
      \<not> throws s (UpdateOne ''items'' (new_ObjectId (id_param req)) body)"
  then have run: "patch_item db req =
    \<lparr>reply = json_message 200 ''Item partially updated'',
     db_after = Some (s\<lparr>docs := (docs s)(''items'' := (docs s ''items'')
        (new_ObjectId (id_param req) \<mapsto> d ++ body))\<rparr>),
     calls = [UpdateOne ''items'' (new_ObjectId (id_param req)) body]\<rparr>"
    using patch_item_hit [OF assms, of body s d] by simp
  then show "reply (patch_item db req) = json_message 200 ''Item partially updated''"
    by simp
  show "\<exists>s'. db_after (patch_item db req) = Some s' \<and>
      docs s' ''items'' (new_ObjectId (id_param req)) = Some (d ++ body) \<and>
      (\<forall>f v. body f = Some v \<longrightarrow> (d ++ body) f = Some v) \<and>
      (\<forall>f. body f = None \<longrightarrow> (d ++ body) f = d f) \<and>
      (\<forall>c i. (c, i) \<noteq> (''items'', new_ObjectId (id_param req)) \<longrightarrow>
             docs s' c i = docs s c i)"
    unfolding run by (auto simp add: map_add_def)
qed

theorem patch_empty_or_merged_witness:
  "patch_item (Some sample_store)
     \<lparr>x_api_key = Some ''s3cret'', id_param = sample_id, req_body = Some Map.empty,
      req_query = Map.empty\<rparr> =
     \<lparr>reply = json_error 400 ''No fields provided for update'',
      db_after = Some sample_store, calls = []\<rparr> \<and>
   patch_item (Some sample_store)
     \<lparr>x_api_key = Some ''s3cret'', id_param = sample_id, req_body = None,
      req_query = Map.empty\<rparr> =
     \<lparr>reply = json_error 400 ''No fields provided for update'',
      db_after = Some sample_store, calls = []\<rparr> \<and>
   reply (patch_item (Some sample_store)
     \<lparr>x_api_key = Some ''s3cret'', id_param = sample_id,
      req_body = Some [''color'' \<mapsto> JStr ''red''], req_query = Map.empty\<rparr>) =
     json_message 200 ''Item partially updated''"
proof -
  let ?r0 = "\<lparr>x_api_key = Some ''s3cret'', id_param = sample_id, req_body = Some Map.empty,
      req_query = Map.empty\<rparr>"
  let ?rn = "\<lparr>x_api_key = Some ''s3cret'', id_param = sample_id, req_body = None,
      req_query = Map.empty\<rparr>"
  let ?r1 = "\<lparr>x_api_key = Some ''s3cret'', id_param = sample_id,
      req_body = Some [''color'' \<mapsto> JStr ''red''], req_query = Map.empty\<rparr>"
  have v0: "ObjectId_isValid (id_param ?r0)" and vn: "ObjectId_isValid (id_param ?rn)"
    and v1: "ObjectId_isValid (id_param ?r1)"
    using sample_id_valid by simp_all
  have e: "req_body ?r0 = Some Map.empty \<and> dom (Map.empty :: document) = {}"
    by simp
  have n: "req_body ?rn = None"
    by simp
  have h: "req_body ?r1 = Some [''color'' \<mapsto> JStr ''red''] \<and>
      dom [''color'' \<mapsto> JStr ''red''] \<noteq> {} \<and> Some sample_store = Some sample_store \<and>
      docs sample_store ''items'' (new_ObjectId (id_param ?r1)) = Some pen \<and>
      \<not> throws sample_store (UpdateOne ''items'' (new_ObjectId (id_param ?r1))
            [''color'' \<mapsto> JStr ''red''])"
    using sample_id_valid by (simp add: sample_store_def)
  have 0: "patch_item (Some sample_store) ?r0 =
     \<lparr>reply = json_error 400 ''No fields provided for update'',
      db_after = Some sample_store, calls = []\<rparr>"
    using patch_empty_or_merged [OF v0, where db = "Some sample_store"] e by blast
  have 1: "patch_item (Some sample_store) ?rn =
     \<lparr>reply = json_error 400 ''No fields provided for update'',
      db_after = Some sample_store, calls = []\<rparr>"
    using patch_empty_or_merged [OF vn, where db = "Some sample_store"] n by blast
  have 2: "reply (patch_item (Some sample_store) ?r1) =
     json_message 200 ''Item partially updated''"
    using patch_empty_or_merged [OF v1, where db = "Some sample_store"] h by blast
  from 0 1 2 show ?thesis by (intro conjI)
qed

section \<open>Deletion\<close>

text \<open>
  Claim C7. \<open>DELETE /api/items/:id\<close> with the right key and a well-formed identifier issues
  one store call, the \<open>deleteOne\<close>, and nothing before it. If the deleted count it returns
  is zero the answer is 404 and the store is as it was; otherwise the answer is 204 with
  no body, the document was there and is gone, and the others are as they were. A
  \<open>GET\<close> of the same identifier on the store after the deletion answers 404.
\<close>

theorem delete_then_get:
  assumes "x_api_key req = Some k" and "k \<noteq> []" and "key = Some k"
    and "ObjectId_isValid (id_param req)"
    and "deleteOne s ''items'' (new_ObjectId (id_param req)) = Inr (s', deletedCount)"
  shows "calls (route_delete_item key (Some s) req) =
           [DeleteOne ''items'' (new_ObjectId (id_param req))] \<and>
         db_after (route_delete_item key (Some s) req) = Some s' \<and>
         (deletedCount = 0 \<longrightarrow>
            reply (route_delete_item key (Some s) req) = json_error 404 ''Item not found'' \<and>
            s' = s) \<and>
         (deletedCount \<noteq> 0 \<longrightarrow>
            reply (route_delete_item key (Some s) req) = \<lparr>status = 204, payload = NoBody\<rparr> \<and>
            docs s ''items'' (new_ObjectId (id_param req)) \<noteq> None \<and>
            (\<forall>c i. (c, i) \<noteq> (''items'', new_ObjectId (id_param req)) \<longrightarrow>
                   docs s' c i = docs s c i)) \<and>
         docs s' ''items'' (new_ObjectId (id_param req)) = None \<and>
         (\<forall>req'. id_param req' = id_param req \<and>
                 \<not> throws s' (FindOne ''items'' (new_ObjectId (id_param req))) \<longrightarrow>
            get_item_by_id (Some s') req' =
              \<lparr>reply = json_error 404 ''Item not found'', db_after = Some s',
               calls = [FindOne ''items'' (new_ObjectId (id_param req))]\<rparr>)"
proof -
  let ?i = "new_ObjectId (id_param req)"
  have route: "route_delete_item key (Some s) req = delete_item (Some s) req"
    using assms(1-3) by (simp add: route_delete_item_def gated_cases)
  have run: "delete_item (Some s) req =
      \<lparr>reply = (if deletedCount = 0 then json_error 404 ''Item not found''
                else \<lparr>status = 204, payload = NoBody\<rparr>),
       db_after = Some s', calls = [DeleteOne ''items'' ?i]\<rparr>"
    using assms(4,5) by (simp add: delete_item_def)
  have miss: "s' = s" if "deletedCount = 0"
    using assms(5) that by (auto simp add: deleteOne_def split: if_splits option.splits)
  have hit: "docs s ''items'' ?i \<noteq> None \<and>
      (\<forall>c i. (c, i) \<noteq> (''items'', ?i) \<longrightarrow> docs s' c i = docs s c i)"
    if "deletedCount \<noteq> 0"
    using assms(5) that by (auto simp add: deleteOne_def split: if_splits option.splits)
  have gone: "docs s' ''items'' ?i = None"
    using assms(5) by (auto simp add: deleteOne_def split: if_splits option.splits)
  have get: "get_item_by_id (Some s') req' =
      \<lparr>reply = json_error 404 ''Item not found'', db_after = Some s',
       calls = [FindOne ''items'' ?i]\<rparr>"
    if "id_param req' = id_param req \<and> \<not> throws s' (FindOne ''items'' ?i)" for req'
    using get_item_by_id_result [of req' s'] assms(4) that gone by simp
  show ?thesis
    unfolding route using run miss hit gone get by simp
qed

theorem delete_then_get_witness:
  "reply (route_delete_item (Some ''s3cret'') (Some sample_store)
     \<lparr>x_api_key = Some ''s3cret'', id_param = sample_id, req_body = Some Map.empty,
      req_query = Map.empty\<rparr>) = \<lparr>status = 204, payload = NoBody\<rparr> \<and>
   reply (get_item_by_id (Some (sample_store\<lparr>docs := (docs sample_store)
            (''items'' := (docs sample_store ''items'')(ObjectId sample_id := None))\<rparr>))
     \<lparr>x_api_key = None, id_param = sample_id, req_body = None,
      req_query = Map.empty\<rparr>) = json_error 404 ''Item not found'' \<and>
   reply (route_delete_item (Some ''s3cret'') (Some empty_store)
     \<lparr>x_api_key = Some ''s3cret'', id_param = sample_id, req_body = Some Map.empty,
      req_query = Map.empty\<rparr>) = json_error 404 ''Item not found''"
proof -
  let ?r = "\<lparr>x_api_key = Some ''s3cret'', id_param = sample_id, req_body = Some Map.empty,
      req_query = Map.empty\<rparr>"
  let ?g = "\<lparr>x_api_key = None, id_param = sample_id, req_body = None,
      req_query = Map.empty\<rparr>"
  let ?s' = "sample_store\<lparr>docs := (docs sample_store)
            (''items'' := (docs sample_store ''items'')(ObjectId sample_id := None))\<rparr>"
  have k: "x_api_key ?r = Some ''s3cret''" "''s3cret'' \<noteq> []" "Some ''s3cret'' = Some ''s3cret''"
    by simp_all
  have v: "ObjectId_isValid (id_param ?r)"
    using sample_id_valid by simp
  have d1: "deleteOne sample_store ''items'' (new_ObjectId (id_param ?r)) = Inr (?s', 1)"
    using sample_id_valid by (simp add: deleteOne_def sample_store_def)
  have d0: "deleteOne empty_store ''items'' (new_ObjectId (id_param ?r)) = Inr (empty_store, 0)"
    by (simp add: deleteOne_def empty_store_def)
  have g: "id_param ?g = id_param ?r \<and>
      \<not> throws ?s' (FindOne ''items'' (new_ObjectId (id_param ?r)))"
    by (simp add: sample_store_def)
  have one: "(1::nat) \<noteq> 0"
    by simp
  have 1: "reply (route_delete_item (Some ''s3cret'') (Some sample_store) ?r) =
      \<lparr>status = 204, payload = NoBody\<rparr>"
    using delete_then_get [OF k v d1] one by blast
  have "get_item_by_id (Some ?s') ?g =
      \<lparr>reply = json_error 404 ''Item not found'', db_after = Some ?s',
       calls = [FindOne ''items'' (new_ObjectId (id_param ?r))]\<rparr>"
    using delete_then_get [OF k v d1] g by blast
  then have 2: "reply (get_item_by_id (Some ?s') ?g) = json_error 404 ''Item not found''"
    by simp
  have 3: "reply (route_delete_item (Some ''s3cret'') (Some empty_store) ?r) =
      json_error 404 ''Item not found''"
    using delete_then_get [OF k v d0] by blast
  from 1 2 3 show ?thesis by (intro conjI)
qed

section \<open>Full update\<close>

text \<open>
  Claim C4, as the code has it. \<open>PUT /api/items/:id\<close> with a well-formed identifier and
  truthy \<open>name\<close> and \<open>description\<close>, on an existing document and a store that accepts the
  update: the answer is 200 and the one store call is a \<open>$set\<close> of exactly \<open>name\<close> and
  \<open>description\<close>, with the values of the body. Every other field of the existing document
  is left as it was, whether the body names it or not, and every other document is as it
  was.
\<close>

theorem put_sets_name_and_description:
  assumes "req_body req = Some body"
    and "ObjectId_isValid (id_param req)"
    and "truthy (body ''name'')" and "truthy (body ''description'')"
    and "docs s ''items'' (new_ObjectId (id_param req)) = Some d"
    and "\<not> throws s (UpdateOne ''items'' (new_ObjectId (id_param req))
                        (body |` {''name'', ''description''}))"
  shows "reply (put_item (Some s) req) = json_message 200 ''Item fully updated'' \<and>
         calls (put_item (Some s) req) =
           [UpdateOne ''items'' (new_ObjectId (id_param req))
              (body |` {''name'', ''description''})] \<and>
         (\<exists>s' d'. db_after (put_item (Some s) req) = Some s' \<and>
            docs s' ''items'' (new_ObjectId (id_param req)) = Some d' \<and>
            d' ''name'' = body ''name'' \<and>
            d' ''description'' = body ''description'' \<and>
            (\<forall>f. f \<noteq> ''name'' \<and> f \<noteq> ''description'' \<longrightarrow> d' f = d f) \<and>
            (\<forall>c i. (c, i) \<noteq> (''items'', new_ObjectId (id_param req)) \<longrightarrow>
                   docs s' c i = docs s c i))"
proof -
  let ?upd = "body |` {''name'', ''description''}"
  note run = put_item_hit [OF assms(1-4) assms(6) assms(5)]
  have n: "(d ++ ?upd) ''name'' = body ''name''"
    using assms(3) by (cases "body ''name''") (simp_all add: map_add_def restrict_map_def)
  have de: "(d ++ ?upd) ''description'' = body ''description''"
    using assms(4)
    by (cases "body ''description''") (simp_all add: map_add_def restrict_map_def)
  have rest: "(d ++ ?upd) f = d f" if "f \<noteq> ''name'' \<and> f \<noteq> ''description''" for f
    using that by (simp add: map_add_def restrict_map_def)
  show ?thesis
    unfolding run using n de rest by simp
qed

theorem put_sets_name_and_description_witness:
  "reply (put_item (Some sample_store)
     \<lparr>x_api_key = Some ''s3cret'', id_param = sample_id,
      req_body = Some [''name'' \<mapsto> JStr ''Pencil'', ''description'' \<mapsto> JStr ''grey''],
      req_query = Map.empty\<rparr>) = json_message 200 ''Item fully updated''"
proof -
  let ?r = "\<lparr>x_api_key = Some ''s3cret'', id_param = sample_id,
      req_body = Some [''name'' \<mapsto> JStr ''Pencil'', ''description'' \<mapsto> JStr ''grey''],
      req_query = Map.empty\<rparr>"
  have v: "ObjectId_isValid (id_param ?r)"
    using sample_id_valid by simp
  have b: "req_body ?r = Some [''name'' \<mapsto> JStr ''Pencil'', ''description'' \<mapsto> JStr ''grey'']"
    by simp
  have n: "truthy ([''name'' \<mapsto> JStr ''Pencil'', ''description'' \<mapsto> JStr ''grey''] ''name'')"
    and d: "truthy ([''name'' \<mapsto> JStr ''Pencil'', ''description'' \<mapsto> JStr ''grey'']
                      ''description'')"
    by simp_all
  have e: "docs sample_store ''items'' (new_ObjectId (id_param ?r)) = Some pen"
    using sample_id_valid by (simp add: sample_store_def)
  have t: "\<not> throws sample_store (UpdateOne ''items'' (new_ObjectId (id_param ?r))
      ([''name'' \<mapsto> JStr ''Pencil'', ''description'' \<mapsto> JStr ''grey'']
         |` {''name'', ''description''}))"
    by (simp add: sample_store_def)
  show ?thesis
    using put_sets_name_and_description [OF b v n d e t] by blast
qed

text \<open>The claim as the spec words it, a merge of exactly the fields provided in the
  body, fails on a body with a third field: \<open>color\<close> is provided and is not stored.\<close>

theorem put_ignores_other_fields_counterexample:
  "map_option (\<lambda>body. body ''color'')
     (req_body \<lparr>x_api_key = Some ''s3cret'', id_param = sample_id,
        req_body = Some [''name'' \<mapsto> JStr ''Pencil'', ''description'' \<mapsto> JStr ''grey'',
                    ''color'' \<mapsto> JStr ''red''],
        req_query = Map.empty\<rparr>) = Some (Some (JStr ''red'')) \<and>
   reply (put_item (Some sample_store)
     \<lparr>x_api_key = Some ''s3cret'', id_param = sample_id,
      req_body = Some [''name'' \<mapsto> JStr ''Pencil'', ''description'' \<mapsto> JStr ''grey'',
                  ''color'' \<mapsto> JStr ''red''],
      req_query = Map.empty\<rparr>) = json_message 200 ''Item fully updated'' \<and>
   db_after (put_item (Some sample_store)
     \<lparr>x_api_key = Some ''s3cret'', id_param = sample_id,
      req_body = Some [''name'' \<mapsto> JStr ''Pencil'', ''description'' \<mapsto> JStr ''grey'',
                  ''color'' \<mapsto> JStr ''red''],
      req_query = Map.empty\<rparr>) =
     Some (sample_store\<lparr>docs := (docs sample_store)(''items'' :=
       [ObjectId sample_id \<mapsto> [''_id'' \<mapsto> JOid (ObjectId sample_id),
          ''name'' \<mapsto> JStr ''Pencil'', ''description'' \<mapsto> JStr ''grey'']])\<rparr>) \<and>
   [''_id'' \<mapsto> JOid (ObjectId sample_id), ''name'' \<mapsto> JStr ''Pencil'',
    ''description'' \<mapsto> JStr ''grey''] ''color'' = None"
  unfolding sample_put_run by simp

text \<open>
  Claim C8. For an existing item and a \<open>PUT /api/items/:id\<close> with the right key and truthy
  \<open>name\<close> and \<open>description\<close>, on a store that accepts the update: the request answers 200,
  the same request issued again on the resulting store answers 200 as well, and the store
  after the second request is the store after the first.
\<close>

theorem put_twice:
  assumes "x_api_key req = Some k" and "k \<noteq> []" and "key = Some k"
    and "req_body req = Some body"
    and "ObjectId_isValid (id_param req)"
    and "truthy (body ''name'')" and "truthy (body ''description'')"
    and "docs s ''items'' (new_ObjectId (id_param req)) = Some d"
    and "\<not> throws s (UpdateOne ''items'' (new_ObjectId (id_param req))
                        (body |` {''name'', ''description''}))"
  shows "status (reply (route_put_item key (Some s) req)) = 200 \<and>
         status (reply (route_put_item key
                   (db_after (route_put_item key (Some s) req)) req)) = 200 \<and>
         db_after (route_put_item key (db_after (route_put_item key (Some s) req)) req) =
           db_after (route_put_item key (Some s) req) \<and>
         db_after (route_put_item key (Some s) req) \<noteq> None"
proof -
  let ?i = "new_ObjectId (id_param req)"
  let ?upd = "body |` {''name'', ''description''}"
  let ?s' = "s\<lparr>docs := (docs s)(''items'' := (docs s ''items'')(?i \<mapsto> d ++ ?upd))\<rparr>"
  have route: "route_put_item key db req = put_item db req" for db
    using assms(1-3) by (simp add: route_put_item_def gated_cases)
  note first = put_item_hit [OF assms(4-7) assms(9) assms(8)]
  have d': "docs ?s' ''items'' ?i = Some (d ++ ?upd)"
    by simp
  have t': "\<not> throws ?s' (UpdateOne ''items'' ?i ?upd)"
    using assms(9) by simp
  note second = put_item_hit [OF assms(4-7) t' d']
  have same: "?s'\<lparr>docs := (docs ?s')(''items'' := (docs ?s' ''items'')
                  (?i \<mapsto> (d ++ ?upd) ++ ?upd))\<rparr> = ?s'"
    by (simp add: map_add_twice)
  have o1: "route_put_item key (Some s) req =
      \<lparr>reply = json_message 200 ''Item fully updated'', db_after = Some ?s',
       calls = [UpdateOne ''items'' ?i ?upd]\<rparr>"
    unfolding route first ..
  have o2: "route_put_item key (Some ?s') req =
      \<lparr>reply = json_message 200 ''Item fully updated'', db_after = Some ?s',
       calls = [UpdateOne ''items'' ?i ?upd]\<rparr>"
    unfolding route second same ..
  have a1: "db_after (route_put_item key (Some s) req) = Some ?s'"
    unfolding o1 by simp
  show ?thesis
    unfolding a1 unfolding o1 o2 by (simp add: json_message_def)
qed

theorem put_twice_witness:
  "status (reply (route_put_item (Some ''s3cret'') (Some sample_store)
     \<lparr>x_api_key = Some ''s3cret'', id_param = sample_id,
      req_body = Some [''name'' \<mapsto> JStr ''Pencil'', ''description'' \<mapsto> JStr ''grey''],
      req_query = Map.empty\<rparr>)) = 200 \<and>
   status (reply (route_put_item (Some ''s3cret'')
     (db_after (route_put_item (Some ''s3cret'') (Some sample_store)
        \<lparr>x_api_key = Some ''s3cret'', id_param = sample_id,
         req_body = Some [''name'' \<mapsto> JStr ''Pencil'', ''description'' \<mapsto> JStr ''grey''],
         req_query = Map.empty\<rparr>))
     \<lparr>x_api_key = Some ''s3cret'', id_param = sample_id,
      req_body = Some [''name'' \<mapsto> JStr ''Pencil'', ''description'' \<mapsto> JStr ''grey''],
      req_query = Map.empty\<rparr>)) = 200"
proof -
  let ?r = "\<lparr>x_api_key = Some ''s3cret'', id_param = sample_id,
      req_body = Some [''name'' \<mapsto> JStr ''Pencil'', ''description'' \<mapsto> JStr ''grey''],
      req_query = Map.empty\<rparr>"
  have k: "x_api_key ?r = Some ''s3cret''" "''s3cret'' \<noteq> []" "Some ''s3cret'' = Some ''s3cret''"
    by simp_all
  have v: "ObjectId_isValid (id_param ?r)"
    using sample_id_valid by simp
  have b: "req_body ?r = Some [''name'' \<mapsto> JStr ''Pencil'', ''description'' \<mapsto> JStr ''grey'']"
    by simp
  have n: "truthy ([''name'' \<mapsto> JStr ''Pencil'', ''description'' \<mapsto> JStr ''grey''] ''name'')"
    and d: "truthy ([''name'' \<mapsto> JStr ''Pencil'', ''description'' \<mapsto> JStr ''grey'']
                      ''description'')"
    by simp_all
  have e: "docs sample_store ''items'' (new_ObjectId (id_param ?r)) = Some pen"
    using sample_id_valid by (simp add: sample_store_def)
  have t: "\<not> throws sample_store (UpdateOne ''items'' (new_ObjectId (id_param ?r))
      ([''name'' \<mapsto> JStr ''Pencil'', ''description'' \<mapsto> JStr ''grey'']
         |` {''name'', ''description''}))"
    by (simp add: sample_store_def)
  show ?thesis
    using put_twice [OF k b v n d e t] by blast
qed

section \<open>What create and full update write\<close>

text \<open>
  Claim C10. \<open>POST /api/items\<close> and \<open>PUT /api/items/:id\<close> depend on the body only through
  \<open>name\<close> and \<open>description\<close>: the whole outcome (response, store, store calls) is the one of
  the request whose body is cut down to these two fields, and the only store call either
  handler can issue carries the body cut down to these two fields. The only store call
  \<open>PATCH\<close> can issue carries the whole body.
\<close>

theorem only_name_and_description_written:
  "post_items fresh db req =
     post_items fresh db
       (req\<lparr>req_body := map_option (\<lambda>body. body |` {''name'', ''description''})
                              (req_body req)\<rparr>) \<and>
   put_item db req =
     put_item db
       (req\<lparr>req_body := map_option (\<lambda>body. body |` {''name'', ''description''})
                              (req_body req)\<rparr>) \<and>
   (calls (post_items fresh db req) = [] \<or>
    (\<exists>body. req_body req = Some body \<and>
       calls (post_items fresh db req) =
         [InsertOne ''items'' (body |` {''name'', ''description''})])) \<and>
   (calls (put_item db req) = [] \<or>
    (\<exists>body. req_body req = Some body \<and>
       calls (put_item db req) =
         [UpdateOne ''items'' (new_ObjectId (id_param req))
            (body |` {''name'', ''description''})])) \<and>
   (calls (patch_item db req) = [] \<or>
    (\<exists>body. req_body req = Some body \<and>
       calls (patch_item db req) =
         [UpdateOne ''items'' (new_ObjectId (id_param req)) body]))"
proof (cases "req_body req")
  case None
  then show ?thesis
    by (simp add: post_items_def put_item_def patch_item_def uncaught_def Let_def)
next
  case (Some body)
  have 1: "post_items fresh db req =
     post_items fresh db
       (req\<lparr>req_body := map_option (\<lambda>body. body |` {''name'', ''description''})
                              (req_body req)\<rparr>)"
    using Some by (simp add: post_items_def restrict_map_def)
  have 2: "put_item db req =
     put_item db
       (req\<lparr>req_body := map_option (\<lambda>body. body |` {''name'', ''description''})
                              (req_body req)\<rparr>)"
    using Some by (simp add: put_item_def restrict_map_def)
  have 3: "calls (post_items fresh db req) = [] \<or>
    calls (post_items fresh db req) =
      [InsertOne ''items'' (body |` {''name'', ''description''})]"
    using Some
    by (simp add: post_items_def name_description_restrict Let_def
        split: option.splits sum.splits prod.splits)
  have 4: "calls (put_item db req) = [] \<or>
    calls (put_item db req) =
      [UpdateOne ''items'' (new_ObjectId (id_param req))
         (body |` {''name'', ''description''})]"
    using Some
    by (simp add: put_item_def name_description_restrict Let_def
        split: option.splits sum.splits prod.splits)
  have 5: "calls (patch_item db req) = [] \<or>
    calls (patch_item db req) =
      [UpdateOne ''items'' (new_ObjectId (id_param req)) body]"
    using Some
    by (simp add: patch_item_def Let_def split: option.splits sum.splits prod.splits)
  from 1 2 3 4 5 Some show ?thesis
    by blast
qed

theorem only_name_and_description_written_witness:
  "calls (post_items (ObjectId sample_id) (Some empty_store)
     \<lparr>x_api_key = Some ''s3cret'', id_param = [],
      req_body = Some [''name'' \<mapsto> JStr ''Pen'', ''description'' \<mapsto> JStr ''blue'',
                       ''color'' \<mapsto> JStr ''red''],
      req_query = Map.empty\<rparr>) =
     [InsertOne ''items''
        ([''name'' \<mapsto> JStr ''Pen'', ''description'' \<mapsto> JStr ''blue'',
          ''color'' \<mapsto> JStr ''red''] |` {''name'', ''description''})]"
proof -
  let ?b = "[''name'' \<mapsto> JStr ''Pen'', ''description'' \<mapsto> JStr ''blue'',
             ''color'' \<mapsto> JStr ''red'']"
  let ?r = "\<lparr>x_api_key = Some ''s3cret'', id_param = [], req_body = Some ?b,
      req_query = Map.empty\<rparr>"
  have ne: "calls (post_items (ObjectId sample_id) (Some empty_store) ?r) \<noteq> []"
    unfolding sample_post_run by simp
  have b: "req_body ?r = Some ?b"
    by simp
  note inst = only_name_and_description_written
      [where fresh = "ObjectId sample_id" and db = "Some empty_store" and req = ?r]
  note third = inst [THEN conjunct2, THEN conjunct2, THEN conjunct1]
  from third ne have "\<exists>body. req_body ?r = Some body \<and>
       calls (post_items (ObjectId sample_id) (Some empty_store) ?r) =
         [InsertOne ''items'' (body |` {''name'', ''description''})]"
    by blast
  then obtain body where "req_body ?r = Some body"
    and c: "calls (post_items (ObjectId sample_id) (Some empty_store) ?r) =
         [InsertOne ''items'' (body |` {''name'', ''description''})]"
    by blast
  with b have "body = ?b"
    by simp
  with c show ?thesis
    by simp
qed

section \<open>Create, then read\<close>




section \<open>The query of the product listing\<close>

text \<open>
  Claim C5, as the code has it. When \<open>fields\<close> is absent or a string, \<open>GET /api/products\<close>
  issues one \<open>find\<close> on \<open>products\<close>, where
  \<^item> the filter has a \<open>category\<close> entry iff the parameter is given and is not the empty
    string, and the entry is the value given;
  \<^item> the filter has a \<open>price\<close> entry iff \<open>minPrice\<close> is given and is not the empty string,
    and the entry is \<open>$gte\<close> of \<open>Number(minPrice)\<close>; both entries stand in the one filter;
  \<^item> there is a projection iff \<open>fields\<close> is a string that is not empty, and its keys are
    the pieces of the string between commas, apart from \<open>__proto__\<close>, each with the value 1;
  \<^item> the sort is \<open>{price: 1}\<close> iff \<open>sort\<close> is the string \<open>price\<close>, and there is no sort
    otherwise.
  When \<open>fields\<close> is an array or an object, the answer is 500 and no store call is issued.
\<close>

theorem products_query:
  "(req_query req ''fields'' = None \<or> (\<exists>str. req_query req ''fields'' = Some (QStr str)) \<longrightarrow>
     (\<exists>q. calls (get_products Number toArray (Some s) req) = [Find q] \<and>
          c_collection q = ''products'' \<and>
          (f_category (c_filter q) \<noteq> None \<longleftrightarrow>
             (\<exists>v. req_query req ''category'' = Some v \<and> v \<noteq> QStr [])) \<and>
          (f_category (c_filter q) \<noteq> None \<longrightarrow>
             f_category (c_filter q) = req_query req ''category'') \<and>
          (f_price (c_filter q) \<noteq> None \<longleftrightarrow>
             (\<exists>m. req_query req ''minPrice'' = Some m \<and> m \<noteq> QStr [])) \<and>
          (\<forall>m. req_query req ''minPrice'' = Some m \<and> m \<noteq> QStr [] \<longrightarrow>
             f_price (c_filter q) = Some (Gte (Number (val_of m)))) \<and>
          (c_projection q \<noteq> None \<longleftrightarrow>
             (\<exists>str. req_query req ''fields'' = Some (QStr str) \<and> str \<noteq> [])) \<and>
          (\<forall>str. req_query req ''fields'' = Some (QStr str) \<and> str \<noteq> [] \<longrightarrow>
             (\<exists>p. c_projection q = Some p \<and>
                  dom p = set (split_comma str) - {''__proto__''} \<and>
                  (\<forall>f \<in> dom p. p f = Some 1))) \<and>
          (c_sort q = Some [(''price'', 1)] \<longleftrightarrow> req_query req ''sort'' = Some (QStr ''price'')) \<and>
          (c_sort q \<noteq> Some [(''price'', 1)] \<longrightarrow> c_sort q = None))) \<and>
   (\<forall>v. req_query req ''fields'' = Some v \<and> (\<forall>str. v \<noteq> QStr str) \<longrightarrow>
      get_products Number toArray db req =
        \<lparr>reply = server_error, db_after = db, calls = []\<rparr>)"
proof (intro conjI impI allI)
  fix v
  assume "req_query req ''fields'' = Some v \<and> (\<forall>str. v \<noteq> QStr str)"
  then show "get_products Number toArray db req =
      \<lparr>reply = server_error, db_after = db, calls = []\<rparr>"
    by (cases v) (simp_all add: get_products_def Let_def server_error_def)
next
  assume str: "req_query req ''fields'' = None \<or>
      (\<exists>str. req_query req ''fields'' = Some (QStr str))"
  define projection where "projection =
      (case req_query req ''fields'' of
         Some (QStr str) \<Rightarrow>
           if str = [] then None else Some (foldl assign_one Map.empty (split_comma str))
       | _ \<Rightarrow> None)"
  let ?flt = "\<lparr>f_category = (if truthy (map_option val_of (req_query req ''category''))
                             then req_query req ''category'' else None),
               f_price = (if truthy (map_option val_of (req_query req ''minPrice''))
                          then map_option (\<lambda>m. Gte (Number (val_of m)))
                                 (req_query req ''minPrice'')
                          else None)\<rparr>"
  let ?q = "\<lparr>c_collection = ''products'', c_filter = ?flt, c_projection = projection,
            c_sort = (if req_query req ''sort'' = Some (QStr ''price'')
                      then Some [(''price'', 1)] else None)\<rparr>"
  have "(if truthy (map_option val_of (req_query req ''fields'')) then
              (case req_query req ''fields'' of
                 Some (QStr str) \<Rightarrow> Inr (Some (foldl assign_one Map.empty (split_comma str)))
               | _ \<Rightarrow> Inl TypeError)
            else Inr None) = Inr projection"
    using str by (auto simp add: projection_def)
  then have run: "calls (get_products Number toArray (Some s) req) = [Find ?q]"
    by (rule get_products_run)
  have cat1: "f_category ?flt \<noteq> None \<longleftrightarrow>
      (\<exists>v. req_query req ''category'' = Some v \<and> v \<noteq> QStr [])"
    by (auto simp add: truthy_qs)
  have cat2: "f_category ?flt \<noteq> None \<longrightarrow> f_category ?flt = req_query req ''category''"
    by simp
  have pr1: "f_price ?flt \<noteq> None \<longleftrightarrow>
      (\<exists>m. req_query req ''minPrice'' = Some m \<and> m \<noteq> QStr [])"
    by (auto simp add: truthy_qs)
  have pr2: "\<forall>m. req_query req ''minPrice'' = Some m \<and> m \<noteq> QStr [] \<longrightarrow>
      f_price ?flt = Some (Gte (Number (val_of m)))"
    by (auto simp add: truthy_val_of)
  have pj1: "projection \<noteq> None \<longleftrightarrow>
      (\<exists>str. req_query req ''fields'' = Some (QStr str) \<and> str \<noteq> [])"
    using str by (auto simp add: projection_def)
  have pj2: "\<forall>str. req_query req ''fields'' = Some (QStr str) \<and> str \<noteq> [] \<longrightarrow>
      (\<exists>p. projection = Some p \<and> dom p = set (split_comma str) - {''__proto__''} \<and>
           (\<forall>f \<in> dom p. p f = Some 1))"
    by (auto simp add: projection_def dom_foldl_assign_one foldl_assign_one)
  show "\<exists>q. calls (get_products Number toArray (Some s) req) = [Find q] \<and>
          c_collection q = ''products'' \<and>
          (f_category (c_filter q) \<noteq> None \<longleftrightarrow>
             (\<exists>v. req_query req ''category'' = Some v \<and> v \<noteq> QStr [])) \<and>
          (f_category (c_filter q) \<noteq> None \<longrightarrow>
             f_category (c_filter q) = req_query req ''category'') \<and>
          (f_price (c_filter q) \<noteq> None \<longleftrightarrow>
             (\<exists>m. req_query req ''minPrice'' = Some m \<and> m \<noteq> QStr [])) \<and>
          (\<forall>m. req_query req ''minPrice'' = Some m \<and> m \<noteq> QStr [] \<longrightarrow>
             f_price (c_filter q) = Some (Gte (Number (val_of m)))) \<and>
          (c_projection q \<noteq> None \<longleftrightarrow>
             (\<exists>str. req_query req ''fields'' = Some (QStr str) \<and> str \<noteq> [])) \<and>
          (\<forall>str. req_query req ''fields'' = Some (QStr str) \<and> str \<noteq> [] \<longrightarrow>
             (\<exists>p. c_projection q = Some p \<and>
                  dom p = set (split_comma str) - {''__proto__''} \<and>
                  (\<forall>f \<in> dom p. p f = Some 1))) \<and>
          (c_sort q = Some [(''price'', 1)] \<longleftrightarrow> req_query req ''sort'' = Some (QStr ''price'')) \<and>
          (c_sort q \<noteq> Some [(''price'', 1)] \<longrightarrow> c_sort q = None)"
  proof (rule exI [of _ ?q], intro conjI)
    show "calls (get_products Number toArray (Some s) req) = [Find ?q]"
      by (rule run)
    show "c_collection ?q = ''products''"
      by simp
    show "f_category (c_filter ?q) \<noteq> None \<longleftrightarrow>
        (\<exists>v. req_query req ''category'' = Some v \<and> v \<noteq> QStr [])"
      using cat1 by (simp only: cursor.simps)
    show "f_category (c_filter ?q) \<noteq> None \<longrightarrow>
        f_category (c_filter ?q) = req_query req ''category''"
      using cat2 by (simp only: cursor.simps)
    show "f_price (c_filter ?q) \<noteq> None \<longleftrightarrow>
        (\<exists>m. req_query req ''minPrice'' = Some m \<and> m \<noteq> QStr [])"
      using pr1 by (simp only: cursor.simps)
    show "\<forall>m. req_query req ''minPrice'' = Some m \<and> m \<noteq> QStr [] \<longrightarrow>
        f_price (c_filter ?q) = Some (Gte (Number (val_of m)))"
      using pr2 by (simp only: cursor.simps)
    show "c_projection ?q \<noteq> None \<longleftrightarrow>
        (\<exists>str. req_query req ''fields'' = Some (QStr str) \<and> str \<noteq> [])"
      using pj1 by (simp only: cursor.simps)
    show "\<forall>str. req_query req ''fields'' = Some (QStr str) \<and> str \<noteq> [] \<longrightarrow>
        (\<exists>p. c_projection ?q = Some p \<and> dom p = set (split_comma str) - {''__proto__''} \<and>
             (\<forall>f \<in> dom p. p f = Some 1))"
      using pj2 by (simp only: cursor.simps)
    show "c_sort ?q = Some [(''price'', 1)] \<longleftrightarrow> req_query req ''sort'' = Some (QStr ''price'')"
      by simp
    show "c_sort ?q \<noteq> Some [(''price'', 1)] \<longrightarrow> c_sort ?q = None"
      by simp
  qed
qed

theorem products_query_witness:
  "(\<exists>q. calls (get_products (\<lambda>v. Finite 5) (\<lambda>s q. []) (Some empty_store)
        \<lparr>x_api_key = None, id_param = [], req_body = None,
         req_query = [''category'' \<mapsto> QStr ''office'', ''minPrice'' \<mapsto> QStr ''5'',
                      ''sort'' \<mapsto> QStr ''price'', ''fields'' \<mapsto> QStr ''name,price'']\<rparr>) =
          [Find q] \<and>
        f_category (c_filter q) = Some (QStr ''office'') \<and>
        f_price (c_filter q) = Some (Gte (Finite 5)) \<and>
        (\<exists>p. c_projection q = Some p \<and> dom p = {''name'', ''price''}) \<and>
        c_sort q = Some [(''price'', 1)]) \<and>
   get_products (\<lambda>v. Finite 5) (\<lambda>s q. []) (Some empty_store)
     \<lparr>x_api_key = None, id_param = [], req_body = None,
      req_query = [''fields'' \<mapsto> QArr [QStr ''name'', QStr ''price'']]\<rparr> =
     \<lparr>reply = server_error, db_after = Some empty_store, calls = []\<rparr>"
proof -
  define N where "N = (\<lambda>v::val. Finite 5)"
  define T where "T = (\<lambda>(s::store) (q::cursor). [] :: document list)"
  define r where "r = \<lparr>x_api_key = None, id_param = [], req_body = None,
         req_query = [''category'' \<mapsto> QStr ''office'', ''minPrice'' \<mapsto> QStr ''5'',
                      ''sort'' \<mapsto> QStr ''price'', ''fields'' \<mapsto> QStr ''name,price'']\<rparr>"
  define a where "a = \<lparr>x_api_key = None, id_param = [], req_body = None,
      req_query = [''fields'' \<mapsto> QArr [QStr ''name'', QStr ''price'']]\<rparr>"
  have f: "req_query r ''fields'' = None \<or> (\<exists>str. req_query r ''fields'' = Some (QStr str))"
    by (simp add: r_def)
  have c: "req_query r ''category'' = Some (QStr ''office'')" and c': "QStr ''office'' \<noteq> QStr []"
    by (simp_all add: r_def)
  have m: "req_query r ''minPrice'' = Some (QStr ''5'') \<and> QStr ''5'' \<noteq> QStr []"
    by (simp add: r_def)
  have fs: "req_query r ''fields'' = Some (QStr ''name,price'') \<and> ''name,price'' \<noteq> []"
    by (simp add: r_def)
  have so: "req_query r ''sort'' = Some (QStr ''price'')"
    by (simp add: r_def)
  have sp: "set (split_comma ''name,price'') - {''__proto__''} = {''name'', ''price''}"
    by auto
  have n: "N (val_of (QStr ''5'')) = Finite 5"
    by (simp add: N_def)
  have arr: "req_query a ''fields'' = Some (QArr [QStr ''name'', QStr ''price'']) \<and>
      (\<forall>str. QArr [QStr ''name'', QStr ''price''] \<noteq> QStr str)"
    by (simp add: a_def)
  note thm1 = products_query [where req = r and Number = N and toArray = T
      and s = empty_store]
  note thm2 = products_query [where req = a and Number = N and toArray = T
      and db = "Some empty_store"]
  note ex = conjunct1 [OF thm1, THEN mp, OF f]
  from ex obtain q where all:
    "calls (get_products N T (Some empty_store) r) = [Find q] \<and>
     c_collection q = ''products'' \<and>
     (f_category (c_filter q) \<noteq> None \<longleftrightarrow>
        (\<exists>v. req_query r ''category'' = Some v \<and> v \<noteq> QStr [])) \<and>
     (f_category (c_filter q) \<noteq> None \<longrightarrow>
        f_category (c_filter q) = req_query r ''category'') \<and>
     (f_price (c_filter q) \<noteq> None \<longleftrightarrow>
        (\<exists>m. req_query r ''minPrice'' = Some m \<and> m \<noteq> QStr [])) \<and>
     (\<forall>m. req_query r ''minPrice'' = Some m \<and> m \<noteq> QStr [] \<longrightarrow>
        f_price (c_filter q) = Some (Gte (N (val_of m)))) \<and>
     (c_projection q \<noteq> None \<longleftrightarrow>
        (\<exists>str. req_query r ''fields'' = Some (QStr str) \<and> str \<noteq> [])) \<and>
     (\<forall>str. req_query r ''fields'' = Some (QStr str) \<and> str \<noteq> [] \<longrightarrow>
        (\<exists>p. c_projection q = Some p \<and>
             dom p = set (split_comma str) - {''__proto__''} \<and>
             (\<forall>f \<in> dom p. p f = Some 1))) \<and>
     (c_sort q = Some [(''price'', 1)] \<longleftrightarrow> req_query r ''sort'' = Some (QStr ''price'')) \<and>
     (c_sort q \<noteq> Some [(''price'', 1)] \<longrightarrow> c_sort q = None)"
    ..
  note q1 = all [THEN conjunct1]
  note t2 = all [THEN conjunct2, THEN conjunct2]
  note q3 = t2 [THEN conjunct1]
  note q4 = t2 [THEN conjunct2, THEN conjunct1]
  note t5 = t2 [THEN conjunct2, THEN conjunct2, THEN conjunct2]
  note q6 = t5 [THEN conjunct1]
  note q8 = t5 [THEN conjunct2, THEN conjunct2, THEN conjunct1]
  note q9 = t5 [THEN conjunct2, THEN conjunct2, THEN conjunct2, THEN conjunct1]
  have 1: "f_category (c_filter q) = Some (QStr ''office'')"
    using q3 q4 c c' by metis
  have 2: "f_price (c_filter q) = Some (Gte (Finite 5))"
    using q6 [THEN spec, THEN mp, OF m] n by simp
  have 3: "\<exists>p. c_projection q = Some p \<and> dom p = {''name'', ''price''}"
    using q8 [THEN spec, THEN mp, OF fs] sp by metis
  have 4: "c_sort q = Some [(''price'', 1)]"
    using q9 so by blast
  have 5: "get_products N T (Some empty_store) a =
     \<lparr>reply = server_error, db_after = Some empty_store, calls = []\<rparr>"
    using conjunct2 [OF thm2, THEN spec, THEN mp, OF arr] .
  from q1 1 2 3 4 have "\<exists>q. calls (get_products N T (Some empty_store) r) = [Find q] \<and>
        f_category (c_filter q) = Some (QStr ''office'') \<and>
        f_price (c_filter q) = Some (Gte (Finite 5)) \<and>
        (\<exists>p. c_projection q = Some p \<and> dom p = {''name'', ''price''}) \<and>
        c_sort q = Some [(''price'', 1)]"
    by (intro exI [of _ q] conjI)
  with 5 show ?thesis
    unfolding N_def T_def r_def a_def by (intro conjI)
qed

text \<open>The claim as the spec words it, a category predicate iff the parameter is
  given, fails on \<open>?category=&minPrice=5\<close>: the parameter is given, as the empty string, and
  the filter has no \<open>category\<close> entry.\<close>

theorem products_query_empty_category_counterexample:
  "req_query \<lparr>x_api_key = None, id_param = [], req_body = None,
       req_query = [''category'' \<mapsto> QStr [], ''minPrice'' \<mapsto> QStr ''5'']\<rparr> ''category'' =
     Some (QStr []) \<and>
   calls (get_products (\<lambda>v. Finite 5) (\<lambda>s q. []) (Some empty_store)
     \<lparr>x_api_key = None, id_param = [], req_body = None,
      req_query = [''category'' \<mapsto> QStr [], ''minPrice'' \<mapsto> QStr ''5'']\<rparr>) =
     [Find \<lparr>c_collection = ''products'',
            c_filter = \<lparr>f_category = None, f_price = Some (Gte (Finite 5))\<rparr>,
            c_projection = None, c_sort = None\<rparr>]"
proof -
  let ?r = "\<lparr>x_api_key = None, id_param = [], req_body = None,
      req_query = [''category'' \<mapsto> QStr [], ''minPrice'' \<mapsto> QStr ''5'']\<rparr>"
  have p: "(if truthy (map_option val_of (req_query ?r ''fields'')) then
              (case req_query ?r ''fields'' of
                 Some (QStr str) \<Rightarrow> Inr (Some (foldl assign_one Map.empty (split_comma str)))
               | _ \<Rightarrow> Inl TypeError)
            else Inr None) = Inr None"
    by simp
  show ?thesis
    unfolding get_products_run [OF p] by simp
qed

end
